theory Spec2Isabelle
  imports Main "HOL-Library.Word"
begin

section \<open>The bootstrap of faas-netes (main.go)\<close>

text \<open>
  The program under study is the composition root of faas-netes: \<^verbatim>\<open>main\<close>,
  \<^verbatim>\<open>startInformers\<close>, \<^verbatim>\<open>runController\<close> and \<^verbatim>\<open>runOperator\<close> of main.go.
  Everything \<^verbatim>\<open>main\<close> reads from outside (the clock, the command line, files, the
  environment, the answers of the libraries it calls) is a field of the record
  \<open>world\<close>; everything it does to the outside (starting an informer, waiting for a
  cache, building a client, serving) is an \<open>event\<close> appended to a trace; every
  \<^verbatim>\<open>log.Fatalf\<close>, \<^verbatim>\<open>panic\<close> and \<^verbatim>\<open>os.Exit\<close> is a value of type \<open>exit\<close>.
  Values built by packages that main.go only calls (handlers, the controller, the
  function factory) are kept as constructor terms holding the arguments main.go passes.
\<close>

subsection \<open>The license product check\<close>

definition sku :: string where
  "sku = ''openfaas-pro''"

text \<open>\<^verbatim>\<open>hasProduct\<close>: the range loop returns at the first equal element.\<close>

fun hasProduct :: "string \<Rightarrow> string list \<Rightarrow> bool" where
  "hasProduct s [] = False"
| "hasProduct s (p # list) = (if p = s then True else hasProduct s list)"

subsection \<open>Wall-clock time\<close>

text \<open>
  A \<^verbatim>\<open>time.Time\<close> without monotonic reading is compared by its seconds and then its
  nanoseconds; \<^verbatim>\<open>time.Date\<close> never has a monotonic reading, so \<^verbatim>\<open>After\<close> and
  \<^verbatim>\<open>Before\<close> compare wall clocks. Seconds count from 1970-01-01T00:00:00Z.
\<close>

record time =
  sec :: int
  nsec :: nat

definition After :: "time \<Rightarrow> time \<Rightarrow> bool" where
  "After t u = (sec t > sec u \<or> (sec t = sec u \<and> nsec t > nsec u))"

definition Before :: "time \<Rightarrow> time \<Rightarrow> bool" where
  "Before t u = (sec t < sec u \<or> (sec t = sec u \<and> nsec t < nsec u))"

text \<open>Days from 1970-01-01 to a date of the proleptic Gregorian calendar.\<close>

definition days_from_civil :: "int \<Rightarrow> int \<Rightarrow> int \<Rightarrow> int" where
  "days_from_civil y m d =
     (let y' = (if m \<le> 2 then y - 1 else y);
          era = y' div 400;
          yoe = y' - era * 400;
          mp = (m + 9) mod 12;
          doy = (153 * mp + 2) div 5 + d - 1;
          doe = yoe * 365 + yoe div 4 - yoe div 100 + doy
      in era * 146097 + doe - 719468)"

text \<open>\<^verbatim>\<open>time.Date(y, m, d, hh, mm, ss, ns, time.UTC)\<close> for fields in their normal ranges.\<close>

definition Date :: "int \<Rightarrow> int \<Rightarrow> int \<Rightarrow> int \<Rightarrow> int \<Rightarrow> int \<Rightarrow> nat \<Rightarrow> time" where
  "Date y m d hh mm ss ns =
     \<lparr>sec = days_from_civil y m d * 86400 + hh * 3600 + mm * 60 + ss, nsec = ns\<rparr>"

text \<open>The instant of line 81: \<^verbatim>\<open>time.Date(2022, time.March, 14, 0, 0, 0, 0, time.UTC)\<close>.\<close>

definition expiry :: time where
  "expiry = Date 2022 3 14 0 0 0 0"

text \<open>A \<^verbatim>\<open>time.Duration\<close> is a count of nanoseconds.\<close>

definition Second :: int where
  "Second = 1000000000"

definition Minute :: int where
  "Minute = 60 * Second"

subsection \<open>strconv.Atoi\<close>

text \<open>
  \<^verbatim>\<open>strconv.Atoi\<close> on a 64-bit platform, with the two results it returns: the value
  and the error. Strings are byte sequences. A string of 1 to 18 bytes takes the fast
  path; every other string goes through \<^verbatim>\<open>ParseInt(s, 10, 0)\<close>, whose unsigned
  loop \<^verbatim>\<open>ParseUint\<close> returns as soon as the digits read so far overflow 64 bits,
  without looking at the bytes that follow.
\<close>

datatype num_error = ErrSyntax | ErrRange

definition byte :: "char \<Rightarrow> nat" where
  "byte c = of_char c"

text \<open>
  The fast path: \<^verbatim>\<open>ch -= '0'; if ch > 9 { return 0, syntax error }; n = n*10 + int(ch)\<close>,
  the subtraction on a byte wrapping modulo 256. At most 18 digits are read here, so
  \<open>n\<close> stays below \<open>10 ^ 18\<close> and the 64-bit \<^verbatim>\<open>int\<close> does not overflow.
\<close>

fun atoi_fast :: "string \<Rightarrow> int \<Rightarrow> int option" where
  "atoi_fast [] n = Some n"
| "atoi_fast (ch # s) n =
     (let d = (byte ch + 256 - 48) mod 256
      in if d > 9 then None else atoi_fast s (n * 10 + int d))"

definition maxUint64 :: nat where
  "maxUint64 = 2 ^ 64 - 1"

text \<open>\<^verbatim>\<open>lower(c) = c | ('x' - 'X')\<close>.\<close>

definition lower :: "nat \<Rightarrow> nat" where
  "lower k = or k 32"

text \<open>
  The loop of \<^verbatim>\<open>ParseUint(s, 10, 64)\<close> (base 10, so an underscore is not accepted):
  a byte that is no digit of the base is a syntax error with value 0; an overflow of
  \<^verbatim>\<open>n * 10\<close> (\<^verbatim>\<open>n >= cutoff\<close>) or of \<^verbatim>\<open>n + d\<close> (the sum wrapped below \<open>n\<close>) is a
  range error with value \<^verbatim>\<open>maxVal\<close>.
\<close>

fun parseUint_loop :: "string \<Rightarrow> nat \<Rightarrow> nat \<times> num_error option" where
  "parseUint_loop [] n = (n, None)"
| "parseUint_loop (c # s) n =
     (let k = byte c;
          digit = (if 48 \<le> k \<and> k \<le> 57 then Some (k - 48)
                   else if 97 \<le> lower k \<and> lower k \<le> 122 then Some (lower k - 97 + 10)
                   else None)
      in case digit of
           None \<Rightarrow> (0, Some ErrSyntax)
         | Some d \<Rightarrow>
             if d \<ge> 10 then (0, Some ErrSyntax)
             else if n \<ge> maxUint64 div 10 + 1 then (maxUint64, Some ErrRange)
             else
               let n10 = n * 10;
                   n1 = (n10 + d) mod 2 ^ 64
               in if n1 < n10 \<or> n1 > maxUint64 then (maxUint64, Some ErrRange)
                  else parseUint_loop s n1)"

definition ParseUint :: "string \<Rightarrow> nat \<times> num_error option" where
  "ParseUint s = (if s = [] then (0, Some ErrSyntax) else parseUint_loop s 0)"

text \<open>
  \<^verbatim>\<open>ParseInt(s, 10, 0)\<close>: the sign is picked off, a syntax error of \<^verbatim>\<open>ParseUint\<close> is
  returned with value 0, and a magnitude beyond the signed range (which every range
  error of \<^verbatim>\<open>ParseUint\<close> is) gives the bound of that sign.
\<close>

definition ParseInt :: "string \<Rightarrow> int \<times> num_error option" where
  "ParseInt s0 =
     (if s0 = [] then (0, Some ErrSyntax)
      else
        let neg = (hd s0 = CHR ''-'');
            s = (if hd s0 = CHR ''+'' \<or> hd s0 = CHR ''-'' then tl s0 else s0);
            (un, err) = ParseUint s;
            cutoff = (2::nat) ^ 63
        in if err = Some ErrSyntax then (0, err)
           else if \<not> neg \<and> un \<ge> cutoff then (int cutoff - 1, Some ErrRange)
           else if neg \<and> un > cutoff then (- int cutoff, Some ErrRange)
           else (if neg then - int un else int un, None))"

definition Atoi :: "string \<Rightarrow> int \<times> num_error option" where
  "Atoi s0 =
     (if 0 < length s0 \<and> length s0 < 19 then
        let s = (if hd s0 = CHR ''-'' \<or> hd s0 = CHR ''+'' then tl s0 else s0)
        in if s = [] then (0, Some ErrSyntax)
           else (case atoi_fast s 0 of
                   None \<Rightarrow> (0, Some ErrSyntax)
                 | Some n \<Rightarrow> (if hd s0 = CHR ''-'' then - n else n, None))
      else ParseInt s0)"

text \<open>
  What "a valid integer" means for a string: an optional sign followed by one or more
  decimal digits.
\<close>

definition is_digit :: "char \<Rightarrow> bool" where
  "is_digit c = (48 \<le> byte c \<and> byte c \<le> 57)"

definition valid_integer :: "string \<Rightarrow> bool" where
  "valid_integer s =
     (let ds = (if s \<noteq> [] \<and> (hd s = CHR ''+'' \<or> hd s = CHR ''-'') then tl s else s)
      in ds \<noteq> [] \<and> list_all is_digit ds)"

text \<open>
  The leading digits of a string are the decimal digits that follow its optional
  sign, up to the first byte that is no digit; \<open>leading_value\<close> is the number they
  write, read without any bound.
\<close>

definition unsigned_part :: "string \<Rightarrow> string" where
  "unsigned_part s = (if s \<noteq> [] \<and> (hd s = CHR ''+'' \<or> hd s = CHR ''-'') then tl s else s)"

fun dec :: "nat \<Rightarrow> string \<Rightarrow> nat" where
  "dec n [] = n"
| "dec n (c # s) = dec (n * 10 + (byte c - 48)) s"

definition leading_value :: "string \<Rightarrow> nat" where
  "leading_value s = dec 0 (takeWhile is_digit (unsigned_part s))"

subsection \<open>Configuration\<close>

text \<open>
  The fields of \<^verbatim>\<open>config.BootstrapConfig\<close> that main.go reads. A Go \<^verbatim>\<open>int\<close> is a
  64-bit word; the conversion \<^verbatim>\<open>int32(x)\<close> keeps its low 32 bits.
\<close>

record faas_config =
  TCPPort :: "64 word"
  ReadTimeout :: int
  WriteTimeout :: int

record BootstrapConfig =
  HTTPProbe :: bool
  SetNonRootUser :: bool
  ReadinessProbeInitialDelaySeconds :: "64 word"
  ReadinessProbeTimeoutSeconds :: "64 word"
  ReadinessProbePeriodSeconds :: "64 word"
  LivenessProbeInitialDelaySeconds :: "64 word"
  LivenessProbeTimeoutSeconds :: "64 word"
  LivenessProbePeriodSeconds :: "64 word"
  ImagePullPolicy :: string
  ProfilesNamespace :: string
  DefaultFunctionNamespace :: string
  ClusterRole :: bool
  FaaSConfig :: faas_config

record ProbeConfig =
  InitialDelaySeconds :: "32 word"
  TimeoutSeconds :: "32 word"
  PeriodSeconds :: "32 word"

text \<open>
  \<^verbatim>\<open>k8s.DeploymentConfig\<close>; its fields carry the prefix \<open>dc_\<close> where the name is also
  a field of \<open>BootstrapConfig\<close>. The two probe fields are pointers to structs
  allocated in the literal itself, so they are held by value.
\<close>

record DeploymentConfig =
  RuntimeHTTPPort :: "32 word"
  dc_HTTPProbe :: bool
  dc_SetNonRootUser :: bool
  ReadinessProbe :: ProbeConfig
  LivenessProbe :: ProbeConfig
  dc_ImagePullPolicy :: string
  dc_ProfilesNamespace :: string

text \<open>Lines 169 to 185 of \<^verbatim>\<open>main\<close>.\<close>

definition deployConfig :: "BootstrapConfig \<Rightarrow> DeploymentConfig" where
  "deployConfig cfg =
     \<lparr>RuntimeHTTPPort = 8080,
      dc_HTTPProbe = HTTPProbe cfg,
      dc_SetNonRootUser = SetNonRootUser cfg,
      ReadinessProbe =
        \<lparr>InitialDelaySeconds = ucast (ReadinessProbeInitialDelaySeconds cfg),
         TimeoutSeconds = ucast (ReadinessProbeTimeoutSeconds cfg),
         PeriodSeconds = ucast (ReadinessProbePeriodSeconds cfg)\<rparr>,
      LivenessProbe =
        \<lparr>InitialDelaySeconds = ucast (LivenessProbeInitialDelaySeconds cfg),
         TimeoutSeconds = ucast (LivenessProbeTimeoutSeconds cfg),
         PeriodSeconds = ucast (LivenessProbePeriodSeconds cfg)\<rparr>,
      dc_ImagePullPolicy = ImagePullPolicy cfg,
      dc_ProfilesNamespace = ProfilesNamespace cfg\<rparr>"

subsection \<open>Clients, informer factories, informers\<close>

text \<open>
  The client configuration that \<^verbatim>\<open>clientcmd.BuildConfigFromFlags\<close> returns, with the
  two fields \<^verbatim>\<open>main\<close> overwrites (\<^verbatim>\<open>float32(100)\<close> is the number 100).
\<close>

record rest_config =
  Host :: string
  QPS :: int
  Burst :: int

datatype kube_clientset = KubeClientset rest_config

datatype faas_clientset = FaasClientset rest_config

text \<open>
  \<^verbatim>\<open>NewSharedInformerFactoryWithOptions(client, defaultResync, WithNamespace(ns))\<close>:
  a factory is the client, the resync period and the namespace it was made with; the
  empty namespace means all namespaces.
\<close>

record 'c informer_factory =
  client :: 'c
  resync :: int
  namespace :: string

text \<open>
  The informers main.go takes from a factory: \<^verbatim>\<open>Apps().V1().Deployments()\<close>,
  \<^verbatim>\<open>Core().V1().Endpoints()\<close>, \<^verbatim>\<open>Openfaas().V1().Functions()\<close> and
  \<^verbatim>\<open>Openfaas().V1().Profiles()\<close>.
\<close>

datatype informer =
    Deployments "kube_clientset informer_factory"
  | Endpoints "kube_clientset informer_factory"
  | Functions "faas_clientset informer_factory"
  | Profiles "faas_clientset informer_factory"

datatype kind = DeploymentKind | EndpointsKind | FunctionKind | ProfileKind

fun kind_of :: "informer \<Rightarrow> kind" where
  "kind_of (Deployments f) = DeploymentKind"
| "kind_of (Endpoints f) = EndpointsKind"
| "kind_of (Functions f) = FunctionKind"
| "kind_of (Profiles f) = ProfileKind"

fun scope_of :: "informer \<Rightarrow> string" where
  "scope_of (Deployments f) = namespace f"
| "scope_of (Endpoints f) = namespace f"
| "scope_of (Functions f) = namespace f"
| "scope_of (Profiles f) = namespace f"

fun resync_of :: "informer \<Rightarrow> int" where
  "resync_of (Deployments f) = resync f"
| "resync_of (Endpoints f) = resync f"
| "resync_of (Functions f) = resync f"
| "resync_of (Profiles f) = resync f"

datatype lister = Lister informer

subsection \<open>The values main.go wires together\<close>

datatype function_factory = NewFunctionFactory kube_clientset DeploymentConfig lister

fun factory_config :: "function_factory \<Rightarrow> DeploymentConfig" where
  "factory_config (NewFunctionFactory c dc l) = dc"

fun factory_profiles :: "function_factory \<Rightarrow> lister" where
  "factory_profiles (NewFunctionFactory c dc l) = l"

record PrometheusQuery =
  Host_q :: string
  Port_q :: int

datatype function_lookup = NewFunctionLookup string lister

datatype log_requestor = NewLogRequestor kube_clientset string

datatype handler =
    NewHandlerFunc faas_config function_lookup
  | MakeDeleteHandler string kube_clientset
  | MakeDeployHandler string function_factory
  | MakeFunctionReader string lister
  | MakeReplicaReader string lister PrometheusQuery
  | MakeReplicaUpdater string kube_clientset
  | MakeUpdateHandler string function_factory
  | MakeHealthHandler
  | MakeInfoHandler string string
  | MakeSecretHandler string kube_clientset
  | NewLogHandlerFunc log_requestor int
  | MakeNamespacesLister string bool kube_clientset

record FaaSHandlers =
  FunctionProxy :: handler
  DeleteHandler :: handler
  DeployHandler :: handler
  FunctionReader :: handler
  ReplicaReader :: handler
  ReplicaUpdater :: handler
  UpdateHandler :: handler
  HealthHandler :: handler
  InfoHandler :: handler
  SecretHandler :: handler
  LogHandler :: handler
  ListNamespaceHandler :: handler

text \<open>\<^verbatim>\<open>controller.FunctionFactory{Factory: setup.functionFactory}\<close>.\<close>

datatype controller_factory = FunctionFactory function_factory

datatype controller =
  NewController kube_clientset faas_clientset
    "kube_clientset informer_factory" "faas_clientset informer_factory" controller_factory

datatype server =
  ServerNew faas_clientset kube_clientset informer lister bool BootstrapConfig PrometheusQuery

record serverSetup =
  config :: BootstrapConfig
  kubeClient :: kube_clientset
  faasClient :: faas_clientset
  functionFactory :: function_factory
  kubeInformerFactory :: "kube_clientset informer_factory"
  faasInformerFactory :: "faas_clientset informer_factory"
  profileInformerFactory :: "faas_clientset informer_factory"

text \<open>
  \<^verbatim>\<open>customInformers\<close>; \<^verbatim>\<open>FunctionsInformer\<close> is the nil interface when
  \<^verbatim>\<open>startInformers\<close> never assigns it.
\<close>

record customInformers =
  EndpointsInformer :: informer
  DeploymentInformer :: informer
  FunctionsInformer :: "informer option"

subsection \<open>The outside world, events and exits\<close>

record flags =
  kubeconfig :: string
  masterURL :: string
  license :: string
  licenseFile :: string
  operator :: bool
  verbose :: bool

record license_token =
  Name :: string
  Email :: string
  Products :: "string list"
  Expires :: time

text \<open>
  What a run of \<^verbatim>\<open>main\<close> reads or is answered. A result of type \<open>string + 'a\<close> is
  Go's pair of a value and an error, \<open>Inl\<close> holding the error's text.
  \<^item> \<open>now\<close>: \<^verbatim>\<open>time.Now()\<close> at line 81;
  \<^item> \<open>PublicKey\<close>: the package variable, set when the binary is linked;
  \<^item> \<open>cmdline\<close>: the flags \<^verbatim>\<open>flag.Parse\<close> leaves in the variables, or the status
    with which the flag set (\<^verbatim>\<open>flag.ExitOnError\<close>) exits: 2 for a command line it
    rejects, 0 for \<^verbatim>\<open>-h\<close>;
  \<^item> \<open>ReadFile\<close>, \<open>TrimSpace\<close>, \<open>LookupEnv\<close>: \<^verbatim>\<open>ioutil.ReadFile\<close>,
    \<^verbatim>\<open>strings.TrimSpace\<close>, \<^verbatim>\<open>os.LookupEnv\<close>;
  \<^item> \<open>LoadLicenseToken\<close>: \<^verbatim>\<open>licensev1.LoadLicenseToken(license, PublicKey)\<close>;
  \<^item> \<open>BuildConfigFromFlags\<close>, \<open>NewKubeClient_err\<close>, \<open>NewFaasClient_err\<close>,
    \<open>ReadConfig\<close>: the results of building the client configuration, the two
    clientsets and \<^verbatim>\<open>readConfig.Read(osEnv)\<close>;
  \<^item> \<open>WaitForNamedCacheSync\<close>: whether the informer's \<^verbatim>\<open>HasSynced\<close> became true
    before the stop channel closed (the name the call is given only labels its log
    lines);
  \<^item> \<open>BuildVersion\<close>, \<open>GitCommit\<close>: package \<^verbatim>\<open>version\<close>;
  \<^item> \<open>ctrl_Run\<close>: the error \<^verbatim>\<open>ctrl.Run\<close> returns, if any.
\<close>

record world =
  now :: time
  PublicKey :: string
  cmdline :: "nat + flags"
  ReadFile :: "string \<Rightarrow> string + string"
  TrimSpace :: "string \<Rightarrow> string"
  LookupEnv :: "string \<Rightarrow> string option"
  LoadLicenseToken :: "string \<Rightarrow> string \<Rightarrow> string + license_token"
  BuildConfigFromFlags :: "string \<Rightarrow> string \<Rightarrow> string + rest_config"
  NewKubeClient_err :: "rest_config \<Rightarrow> string option"
  NewFaasClient_err :: "rest_config \<Rightarrow> string option"
  ReadConfig :: "string + BootstrapConfig"
  WaitForNamedCacheSync :: "informer \<Rightarrow> bool"
  BuildVersion :: string
  GitCommit :: string
  ctrl_Run :: "controller \<Rightarrow> nat \<Rightarrow> string option"

datatype component =
    Router function_lookup
  | Handlers FaaSHandlers
  | Reconciler controller
  | ApiServer server

text \<open>
  What a run does, in order: the calls that reach for the cluster
  (\<open>ClientConfig\<close>, \<open>KubeClient\<close>, \<open>FaasClient\<close>), \<open>InformerRun\<close> for
  \<^verbatim>\<open>go x.Informer().Run(stopCh)\<close>, \<open>CacheSynced\<close> for a
  \<^verbatim>\<open>WaitForNamedCacheSync\<close> that returned true, \<open>Wired\<close> for the construction of a
  router, handler set, reconciler or API server, and the three calls that start
  serving: \<^verbatim>\<open>faasProvider.Serve\<close>, \<^verbatim>\<open>go srv.Start()\<close> and \<^verbatim>\<open>ctrl.Run\<close> with its
  number of workers. Log lines are not recorded.
\<close>

datatype event =
    ClientConfig string string
  | KubeClient rest_config
  | FaasClient rest_config
  | InformerRun informer
  | CacheSynced string informer
  | Wired component
  | Serve FaaSHandlers faas_config
  | ServerStart server
  | ControllerRun controller nat

datatype exit = LogFatal string | Panic string | OsExit nat

text \<open>
  A fatal end of the process: \<^verbatim>\<open>log.Fatalf\<close> (which exits with status 1), a panic, or
  an exit with a status other than 0.
\<close>

fun fatal :: "exit \<Rightarrow> bool" where
  "fatal (LogFatal msg) = True"
| "fatal (Panic msg) = True"
| "fatal (OsExit status) = (status \<noteq> 0)"

text \<open>
  A piece of the program takes the trace so far and returns the trace it leaves and
  either the exit that ended the process or its value.
\<close>

type_synonym 'a proc = "event list \<Rightarrow> event list \<times> (exit + 'a)"

definition ret :: "'a \<Rightarrow> 'a proc" where
  "ret a = (\<lambda>tr. (tr, Inr a))"

definition emit :: "event \<Rightarrow> unit proc" where
  "emit e = (\<lambda>tr. (tr @ [e], Inr ()))"

definition die :: "exit \<Rightarrow> 'a proc" where
  "die x = (\<lambda>tr. (tr, Inl x))"

definition seq :: "'a proc \<Rightarrow> ('a \<Rightarrow> 'b proc) \<Rightarrow> 'b proc" where
  "seq m f = (\<lambda>tr. case m tr of (tr', Inl x) \<Rightarrow> (tr', Inl x) | (tr', Inr a) \<Rightarrow> f a tr')"

subsection \<open>startInformers\<close>

text \<open>
  The three lines main.go repeats for each informer:
  \<^verbatim>\<open>go x.Informer().Run(stopCh)\<close>, then
  \<^verbatim>\<open>if ok := cache.WaitForNamedCacheSync(name, stopCh, x.Informer().HasSynced); !ok\<close>
  \<^verbatim>\<open>{ log.Fatalf("failed to wait for cache to sync") }\<close>.
\<close>

definition run_and_wait :: "world \<Rightarrow> string \<Rightarrow> informer \<Rightarrow> unit proc" where
  "run_and_wait w name x =
     seq (emit (InformerRun x)) (\<lambda>_.
       if WaitForNamedCacheSync w x then emit (CacheSynced name x)
       else die (LogFatal ''failed to wait for cache to sync''))"

definition startInformers :: "world \<Rightarrow> serverSetup \<Rightarrow> bool \<Rightarrow> customInformers proc" where
  "startInformers w setup operator_mode =
     (let functions = Functions (faasInformerFactory setup);
          deployments = Deployments (kubeInformerFactory setup);
          endpoints = Endpoints (kubeInformerFactory setup);
          profiles = Profiles (profileInformerFactory setup)
      in
      seq (if operator_mode then run_and_wait w ''faas-netes:functions'' functions
           else ret ()) (\<lambda>_.
      seq (run_and_wait w ''faas-netes:deployments'' deployments) (\<lambda>_.
      seq (run_and_wait w ''faas-netes:endpoints'' endpoints) (\<lambda>_.
      seq (run_and_wait w ''faas-netes:profiles'' profiles) (\<lambda>_.
      ret \<lparr>EndpointsInformer = endpoints,
           DeploymentInformer = deployments,
           FunctionsInformer = (if operator_mode then Some functions else None)\<rparr>)))))"

subsection \<open>runController and runOperator\<close>

text \<open>The struct literal of lines 307 to 320.\<close>

definition bootstrapHandlers ::
  "world \<Rightarrow> serverSetup \<Rightarrow> PrometheusQuery \<Rightarrow> customInformers \<Rightarrow> function_lookup \<Rightarrow> FaaSHandlers"
where
  "bootstrapHandlers w setup query listers functionLookup =
     (let cfg = config setup;
          ns = DefaultFunctionNamespace cfg;
          kc = kubeClient setup;
          factory = functionFactory setup
      in
      \<lparr>FunctionProxy = NewHandlerFunc (FaaSConfig cfg) functionLookup,
       DeleteHandler = MakeDeleteHandler ns kc,
       DeployHandler = MakeDeployHandler ns factory,
       FunctionReader = MakeFunctionReader ns (Lister (DeploymentInformer listers)),
       ReplicaReader = MakeReplicaReader ns (Lister (DeploymentInformer listers)) query,
       ReplicaUpdater = MakeReplicaUpdater ns kc,
       UpdateHandler = MakeUpdateHandler ns factory,
       HealthHandler = MakeHealthHandler,
       InfoHandler = MakeInfoHandler (BuildVersion w) (GitCommit w),
       SecretHandler = MakeSecretHandler ns kc,
       LogHandler = NewLogHandlerFunc (NewLogRequestor kc ns) (WriteTimeout (FaaSConfig cfg)),
       ListNamespaceHandler = MakeNamespacesLister ns (ClusterRole cfg) kc\<rparr>)"

definition runController :: "world \<Rightarrow> serverSetup \<Rightarrow> PrometheusQuery \<Rightarrow> unit proc" where
  "runController w setup query =
     seq (startInformers w setup False) (\<lambda>listers.
       let functionLookup =
             NewFunctionLookup (DefaultFunctionNamespace (config setup))
               (Lister (EndpointsInformer listers));
           handlers = bootstrapHandlers w setup query listers functionLookup
       in
       seq (emit (Wired (Router functionLookup))) (\<lambda>_.
       seq (emit (Wired (Handlers handlers))) (\<lambda>_.
       emit (Serve handlers (FaaSConfig (config setup))))))"

definition runOperator ::
  "world \<Rightarrow> serverSetup \<Rightarrow> BootstrapConfig \<Rightarrow> PrometheusQuery \<Rightarrow> unit proc"
where
  "runOperator w setup cfg query =
     (let factory = FunctionFactory (functionFactory setup) in
      seq (startInformers w setup True) (\<lambda>listers.
        let ctrl = NewController (kubeClient setup) (faasClient setup)
                     (kubeInformerFactory setup) (faasInformerFactory setup) factory;
            srv = ServerNew (faasClient setup) (kubeClient setup)
                    (EndpointsInformer listers) (Lister (DeploymentInformer listers))
                    (ClusterRole cfg) cfg query
        in
        seq (emit (Wired (Reconciler ctrl))) (\<lambda>_.
        seq (emit (Wired (ApiServer srv))) (\<lambda>_.
        seq (emit (ServerStart srv)) (\<lambda>_.
        seq (emit (ControllerRun ctrl 1)) (\<lambda>_.
          case ctrl_Run w ctrl 1 of
            Some err \<Rightarrow> die (LogFatal (''Error running controller: '' @ err))
          | None \<Rightarrow> ret ()))))))"

subsection \<open>main\<close>

text \<open>
  Lines 81 to 136: the expiry date, the command line and the license. The value is
  the parsed flags; \<open>license_text\<close> is the license \<^verbatim>\<open>LoadLicenseToken\<close> is given.
\<close>

definition quoted :: "string \<Rightarrow> string" where
  "quoted s = [CHR 0x22] @ s @ [CHR 0x22]"

definition license_text :: "world \<Rightarrow> flags \<Rightarrow> string proc" where
  "license_text w fl =
     (if length (licenseFile fl) > 0 then
        (case ReadFile w (licenseFile fl) of
           Inl err \<Rightarrow> die (Panic err)
         | Inr res \<Rightarrow> ret (TrimSpace w res))
      else ret (license fl))"

definition check_license :: "world \<Rightarrow> flags proc" where
  "check_license w =
     (if After (now w) expiry then
        die (LogFatal
          ''This demo has expired. Please email contact@openfaas.com for more information.'')
      else
        case cmdline w of
          Inl status \<Rightarrow> die (OsExit status)
        | Inr fl \<Rightarrow>
            if length (license fl) = 0 \<and> length (licenseFile fl) = 0 then
              die (LogFatal ''A license is required via --license or --license-file'')
            else
              seq (license_text w fl) (\<lambda>lic.
                if length lic = 0 then
                  die (Panic
                    ''provide an argument of -license or -license-file to continue using this product'')
                else
                  case LoadLicenseToken w lic (PublicKey w) of
                    Inl err \<Rightarrow> die (OsExit 1)
                  | Inr licenseToken \<Rightarrow>
                      if \<not> hasProduct sku (Products licenseToken) then
                        die (Panic (''this license is not valid for '' @ quoted sku
                                    @ '', contact support@openfaas.com''))
                      else ret fl))"

text \<open>Lines 138 to 165: the client configuration, the two clientsets, the configuration.\<close>

definition connect ::
  "world \<Rightarrow> flags \<Rightarrow> (kube_clientset \<times> faas_clientset \<times> BootstrapConfig) proc"
where
  "connect w fl =
     seq (emit (ClientConfig (masterURL fl) (kubeconfig fl))) (\<lambda>_.
       case BuildConfigFromFlags w (masterURL fl) (kubeconfig fl) of
         Inl err \<Rightarrow> die (LogFatal (''Error building kubeconfig: '' @ err))
       | Inr c \<Rightarrow>
           let clientCmdConfig = c\<lparr>QPS := 100, Burst := 250\<rparr> in
           seq (emit (KubeClient clientCmdConfig)) (\<lambda>_.
             case NewKubeClient_err w clientCmdConfig of
               Some err \<Rightarrow> die (LogFatal (''Error building Kubernetes clientset: '' @ err))
             | None \<Rightarrow>
                 seq (emit (FaasClient clientCmdConfig)) (\<lambda>_.
                   case NewFaasClient_err w clientCmdConfig of
                     Some err \<Rightarrow> die (LogFatal (''Error building OpenFaaS clientset: '' @ err))
                   | None \<Rightarrow>
                       (case ReadConfig w of
                          Inl err \<Rightarrow> die (LogFatal (''Error reading config: '' @ err))
                        | Inr cfg \<Rightarrow>
                            ret (KubeClientset clientCmdConfig,
                                 FaasClientset clientCmdConfig, cfg)))))"

text \<open>Line 189: \<^verbatim>\<open>defaultResync := time.Minute * 5\<close>.\<close>

definition defaultResync :: int where
  "defaultResync = Minute * 5"

text \<open>Lines 191 to 194.\<close>

definition namespaceScope :: "BootstrapConfig \<Rightarrow> string" where
  "namespaceScope cfg = (if ClusterRole cfg then [] else DefaultFunctionNamespace cfg)"

text \<open>Lines 169 to 217: the deployment configuration, the three factories, the setup.\<close>

definition main_setup ::
  "BootstrapConfig \<Rightarrow> kube_clientset \<Rightarrow> faas_clientset \<Rightarrow> serverSetup"
where
  "main_setup cfg kc fc =
     (let kubeFactory = \<lparr>client = kc, resync = defaultResync, namespace = namespaceScope cfg\<rparr>;
          faasFactory = \<lparr>client = fc, resync = defaultResync, namespace = namespaceScope cfg\<rparr>;
          profileFactory =
            \<lparr>client = fc, resync = defaultResync, namespace = ProfilesNamespace cfg\<rparr>;
          profileLister = Lister (Profiles profileFactory);
          factory = NewFunctionFactory kc (deployConfig cfg) profileLister
      in
      \<lparr>config = cfg,
       kubeClient = kc,
       faasClient = fc,
       functionFactory = factory,
       kubeInformerFactory = kubeFactory,
       faasInformerFactory = faasFactory,
       profileInformerFactory = profileFactory\<rparr>)"

text \<open>Lines 219 to 232; \<^verbatim>\<open>prometheusPort, _ = strconv.Atoi(v)\<close> drops the error.\<close>

definition prometheusQuery :: "(string \<Rightarrow> string option) \<Rightarrow> PrometheusQuery" where
  "prometheusQuery lookupEnv =
     (let prometheusHost =
            (case lookupEnv ''prometheus_host'' of
               Some v \<Rightarrow> if length v > 0 then v else ''prometheus''
             | None \<Rightarrow> ''prometheus'');
          prometheusPort =
            (case lookupEnv ''prometheus_port'' of
               Some v \<Rightarrow> if length v > 0 then fst (Atoi v) else 9090
             | None \<Rightarrow> 9090)
      in \<lparr>Host_q = prometheusHost, Port_q = prometheusPort\<rparr>)"

definition main :: "world \<Rightarrow> unit proc" where
  "main w =
     seq (check_license w) (\<lambda>fl.
     seq (connect w fl) (\<lambda>(kc, fc, cfg).
       let setup = main_setup cfg kc fc;
           query = prometheusQuery (LookupEnv w)
       in if operator fl then runOperator w setup cfg query
          else runController w setup query))"

text \<open>A run starts with the empty trace.\<close>

definition run :: "world \<Rightarrow> event list \<times> (exit + unit)" where
  "run w = main w []"

subsection \<open>Reading a trace\<close>

text \<open>The informers a trace starts, and those whose cache it saw synced, in order.\<close>

fun started :: "event list \<Rightarrow> informer list" where
  "started [] = []"
| "started (InformerRun x # es) = x # started es"
| "started (e # es) = started es"

fun synced :: "event list \<Rightarrow> informer list" where
  "synced [] = []"
| "synced (CacheSynced name x # es) = x # synced es"
| "synced (e # es) = synced es"

text \<open>
  The events that wire or start a handler, a router or a reconciler: those of the
  imperative controller and those of the operator.
\<close>

fun controller_event :: "event \<Rightarrow> bool" where
  "controller_event (Wired (Router l)) = True"
| "controller_event (Wired (Handlers h)) = True"
| "controller_event (Serve h c) = True"
| "controller_event e = False"

fun operator_event :: "event \<Rightarrow> bool" where
  "operator_event (Wired (Reconciler c)) = True"
| "operator_event (Wired (ApiServer s)) = True"
| "operator_event (ServerStart s) = True"
| "operator_event (ControllerRun c n) = True"
| "operator_event e = False"

definition is_wiring :: "event \<Rightarrow> bool" where
  "is_wiring e = (controller_event e \<or> operator_event e)"

text \<open>The worker counts given to \<^verbatim>\<open>ctrl.Run\<close> in a trace.\<close>

fun workers :: "event list \<Rightarrow> nat list" where
  "workers [] = []"
| "workers (ControllerRun c n # es) = n # workers es"
| "workers (e # es) = workers es"

text \<open>The function factories an event hands to a handler or to the reconciler.\<close>

fun handler_factories :: "handler \<Rightarrow> function_factory list" where
  "handler_factories (MakeDeployHandler ns f) = [f]"
| "handler_factories (MakeUpdateHandler ns f) = [f]"
| "handler_factories h = []"

definition handlers_list :: "FaaSHandlers \<Rightarrow> handler list" where
  "handlers_list h =
     [FunctionProxy h, DeleteHandler h, DeployHandler h, FunctionReader h, ReplicaReader h,
      ReplicaUpdater h, UpdateHandler h, HealthHandler h, InfoHandler h, SecretHandler h,
      LogHandler h, ListNamespaceHandler h]"

fun controller_factories :: "controller \<Rightarrow> function_factory list" where
  "controller_factories (NewController kc fc kf ff (FunctionFactory f)) = [f]"

fun factories_in :: "event \<Rightarrow> function_factory list" where
  "factories_in (Wired (Handlers h)) = concat (map handler_factories (handlers_list h))"
| "factories_in (Serve h c) = concat (map handler_factories (handlers_list h))"
| "factories_in (Wired (Reconciler c)) = controller_factories c"
| "factories_in (ControllerRun c n) = controller_factories c"
| "factories_in e = []"

subsection \<open>Sample inputs\<close>

definition config0 :: BootstrapConfig where
  "config0 =
     \<lparr>HTTPProbe = True, SetNonRootUser = False,
      ReadinessProbeInitialDelaySeconds = 2, ReadinessProbeTimeoutSeconds = 1,
      ReadinessProbePeriodSeconds = 2,
      LivenessProbeInitialDelaySeconds = 2, LivenessProbeTimeoutSeconds = 1,
      LivenessProbePeriodSeconds = 2,
      ImagePullPolicy = ''Always'', ProfilesNamespace = ''openfaas'',
      DefaultFunctionNamespace = ''openfaas-fn'', ClusterRole = False,
      FaaSConfig = \<lparr>TCPPort = 8081, ReadTimeout = 60 * Second, WriteTimeout = 60 * Second\<rparr>\<rparr>"

definition config1 :: BootstrapConfig where
  "config1 =
     \<lparr>HTTPProbe = False, SetNonRootUser = True,
      ReadinessProbeInitialDelaySeconds = 5, ReadinessProbeTimeoutSeconds = 3,
      ReadinessProbePeriodSeconds = 7,
      LivenessProbeInitialDelaySeconds = 11, LivenessProbeTimeoutSeconds = 13,
      LivenessProbePeriodSeconds = 17,
      ImagePullPolicy = ''IfNotPresent'', ProfilesNamespace = ''profiles'',
      DefaultFunctionNamespace = ''fn'', ClusterRole = True,
      FaaSConfig = \<lparr>TCPPort = 9000, ReadTimeout = 10 * Second, WriteTimeout = 20 * Second\<rparr>\<rparr>"

definition flags0 :: flags where
  "flags0 =
     \<lparr>kubeconfig = [], masterURL = [], license = ''token'', licenseFile = [],
      operator = False, verbose = False\<rparr>"

definition token0 :: license_token where
  "token0 =
     \<lparr>Name = ''Ada'', Email = ''ada@example.com'', Products = [''inlets-pro'', ''openfaas-pro''],
      Expires = Date 2023 1 1 0 0 0 0\<rparr>"

text \<open>
  A world before the expiry date in which the license \<open>''token''\<close> verifies, every call
  succeeds and every cache syncs; the imperative controller is selected.
\<close>

definition world0 :: world where
  "world0 =
     \<lparr>now = Date 2022 1 1 12 0 0 0,
      PublicKey = ''key'',
      cmdline = Inr flags0,
      ReadFile = (\<lambda>path. Inl ''no such file''),
      TrimSpace = (\<lambda>s. s),
      LookupEnv = (\<lambda>name. None),
      LoadLicenseToken =
        (\<lambda>l k. if l = ''token'' \<and> k = ''key'' then Inr token0 else Inl ''invalid license''),
      BuildConfigFromFlags = (\<lambda>m k. Inr \<lparr>Host = ''https://10.0.0.1:443'', QPS = 5, Burst = 10\<rparr>),
      NewKubeClient_err = (\<lambda>c. None),
      NewFaasClient_err = (\<lambda>c. None),
      ReadConfig = Inr config0,
      WaitForNamedCacheSync = (\<lambda>x. True),
      BuildVersion = ''0.13.1'',
      GitCommit = ''abc123'',
      ctrl_Run = (\<lambda>c n. None)\<rparr>"

text \<open>The same world with the operator selected, and with the other configuration.\<close>

definition world_op :: world where
  "world_op = world0\<lparr>cmdline := Inr (flags0\<lparr>operator := True\<rparr>)\<rparr>"

definition world_op1 :: world where
  "world_op1 = world_op\<lparr>ReadConfig := Inr config1\<rparr>"

definition rest0 :: rest_config where
  "rest0 = \<lparr>Host = ''https://10.0.0.1:443'', QPS = 100, Burst = 250\<rparr>"

definition setup0 :: serverSetup where
  "setup0 = main_setup config0 (KubeClientset rest0) (FaasClientset rest0)"

text \<open>The setup \<^verbatim>\<open>main\<close> builds from the second configuration (cluster-wide scope).\<close>

definition setup1 :: serverSetup where
  "setup1 = main_setup config1 (KubeClientset rest0) (FaasClientset rest0)"

text \<open>The handler set \<^verbatim>\<open>runController\<close> builds over the first setup.\<close>

definition handlers0 :: FaaSHandlers where
  "handlers0 =
     bootstrapHandlers world0 setup0 (prometheusQuery (LookupEnv world0))
       \<lparr>EndpointsInformer = Endpoints (kubeInformerFactory setup0),
        DeploymentInformer = Deployments (kubeInformerFactory setup0),
        FunctionsInformer = None\<rparr>
       (NewFunctionLookup (DefaultFunctionNamespace config0)
          (Lister (Endpoints (kubeInformerFactory setup0))))"

text \<open>A world in which the Endpoints cache never syncs.\<close>

definition world_nosync :: world where
  "world_nosync = world0\<lparr>WaitForNamedCacheSync := (\<lambda>x. kind_of x \<noteq> EndpointsKind)\<rparr>"

text \<open>A world whose clock reads exactly 2022-03-14T00:00:00Z, and one a second later.\<close>

definition world_at_expiry :: world where
  "world_at_expiry = world0\<lparr>now := Date 2022 3 14 0 0 0 0\<rparr>"

definition world_expired :: world where
  "world_expired = world_op\<lparr>now := Date 2022 3 14 0 0 1 0\<rparr>"

text \<open>A world in which the command line is \<^verbatim>\<open>-h\<close>: the flag set prints its usage and exits 0.\<close>

definition world_help :: world where
  "world_help = world0\<lparr>cmdline := Inl 0\<rparr>"

text \<open>Environments for the Prometheus settings.\<close>

definition env_overflow :: "string \<Rightarrow> string option" where
  "env_overflow name =
     (if name = ''prometheus_port'' then Some ''99999999999999999999x'' else None)"

definition env_words :: "string \<Rightarrow> string option" where
  "env_words name =
     (if name = ''prometheus_port'' then Some ''http''
      else if name = ''prometheus_host'' then Some ''prometheus.openfaas''
      else None)"

definition env_empty :: "string \<Rightarrow> string option" where
  "env_empty name = (if name = ''prometheus_port'' then Some [] else None)"

section \<open>Properties\<close>

subsection \<open>The shape of a run\<close>

text \<open>
  Each piece of the program only appends to the trace. The lemmas below list, for each
  piece, the traces and results it can leave; the properties of a whole run are read
  off these lists.
\<close>

lemmas proc_defs = seq_def ret_def emit_def die_def

lemma check_license_trace: "check_license w tr = (tr', r) \<Longrightarrow> tr' = tr"
  by (auto simp: check_license_def license_text_def proc_defs
           split: if_splits option.splits sum.splits)

lemma connect_cases:
  assumes "connect w fl tr = (tr', r)"
  shows "\<exists>evs. tr' = tr @ evs \<and> started evs = [] \<and> synced evs = [] \<and> workers evs = []
           \<and> (\<forall>e \<in> set evs. \<not> is_wiring e \<and> factories_in e = [])
           \<and> evs \<noteq> []
           \<and> (\<forall>kc fc cfg. r = Inr (kc, fc, cfg) \<longrightarrow>
                 ReadConfig w = Inr cfg \<and>
                 (\<exists>c. BuildConfigFromFlags w (masterURL fl) (kubeconfig fl) = Inr c
                      \<and> kc = KubeClientset (c\<lparr>QPS := 100, Burst := 250\<rparr>)
                      \<and> fc = FaasClientset (c\<lparr>QPS := 100, Burst := 250\<rparr>)))"
  using assms
  by (auto simp: connect_def proc_defs Let_def is_wiring_def
           split: if_splits option.splits sum.splits)

lemma runController_cases:
  fixes w su q
  defines "d \<equiv> Deployments (kubeInformerFactory su)"
    and "e \<equiv> Endpoints (kubeInformerFactory su)"
    and "p \<equiv> Profiles (profileInformerFactory su)"
    and "F \<equiv> Inl (LogFatal ''failed to wait for cache to sync'')"
  defines "lk \<equiv> NewFunctionLookup (DefaultFunctionNamespace (config su)) (Lister e)"
  defines "h \<equiv> bootstrapHandlers w su q
             \<lparr>EndpointsInformer = e, DeploymentInformer = d, FunctionsInformer = None\<rparr> lk"
  assumes "runController w su q tr = (tr', r)"
  shows "(\<not> WaitForNamedCacheSync w d \<and> r = F \<and> tr' = tr @ [InformerRun d])
       \<or> (WaitForNamedCacheSync w d \<and> \<not> WaitForNamedCacheSync w e \<and> r = F
           \<and> tr' = tr @ [InformerRun d, CacheSynced ''faas-netes:deployments'' d, InformerRun e])
       \<or> (WaitForNamedCacheSync w d \<and> WaitForNamedCacheSync w e \<and> \<not> WaitForNamedCacheSync w p
           \<and> r = F
           \<and> tr' = tr @ [InformerRun d, CacheSynced ''faas-netes:deployments'' d,
                         InformerRun e, CacheSynced ''faas-netes:endpoints'' e, InformerRun p])
       \<or> (WaitForNamedCacheSync w d \<and> WaitForNamedCacheSync w e \<and> WaitForNamedCacheSync w p
           \<and> r = Inr ()
           \<and> tr' = tr @ [InformerRun d, CacheSynced ''faas-netes:deployments'' d,
                         InformerRun e, CacheSynced ''faas-netes:endpoints'' e,
                         InformerRun p, CacheSynced ''faas-netes:profiles'' p,
                         Wired (Router lk), Wired (Handlers h),
                         Serve h (FaaSConfig (config su))])"
  using assms(7) unfolding d_def e_def p_def F_def lk_def h_def
  by (auto simp: runController_def startInformers_def run_and_wait_def proc_defs Let_def
           split: if_splits)

lemma runOperator_cases:
  fixes w su q cfg
  defines "f \<equiv> Functions (faasInformerFactory su)"
    and "d \<equiv> Deployments (kubeInformerFactory su)"
    and "e \<equiv> Endpoints (kubeInformerFactory su)"
    and "p \<equiv> Profiles (profileInformerFactory su)"
    and "F \<equiv> Inl (LogFatal ''failed to wait for cache to sync'')"
  defines "ctrl \<equiv> NewController (kubeClient su) (faasClient su)
                     (kubeInformerFactory su) (faasInformerFactory su)
                     (FunctionFactory (functionFactory su))"
    and "srv \<equiv> ServerNew (faasClient su) (kubeClient su) e (Lister d)
                    (ClusterRole cfg) cfg q"
  assumes "runOperator w su cfg q tr = (tr', r)"
  shows "(\<not> WaitForNamedCacheSync w f \<and> r = F \<and> tr' = tr @ [InformerRun f])
       \<or> (WaitForNamedCacheSync w f \<and> \<not> WaitForNamedCacheSync w d \<and> r = F
           \<and> tr' = tr @ [InformerRun f, CacheSynced ''faas-netes:functions'' f, InformerRun d])
       \<or> (WaitForNamedCacheSync w f \<and> WaitForNamedCacheSync w d \<and> \<not> WaitForNamedCacheSync w e
           \<and> r = F
           \<and> tr' = tr @ [InformerRun f, CacheSynced ''faas-netes:functions'' f,
                         InformerRun d, CacheSynced ''faas-netes:deployments'' d, InformerRun e])
       \<or> (WaitForNamedCacheSync w f \<and> WaitForNamedCacheSync w d \<and> WaitForNamedCacheSync w e
           \<and> \<not> WaitForNamedCacheSync w p \<and> r = F
           \<and> tr' = tr @ [InformerRun f, CacheSynced ''faas-netes:functions'' f,
                         InformerRun d, CacheSynced ''faas-netes:deployments'' d,
                         InformerRun e, CacheSynced ''faas-netes:endpoints'' e, InformerRun p])
       \<or> (WaitForNamedCacheSync w f \<and> WaitForNamedCacheSync w d \<and> WaitForNamedCacheSync w e
           \<and> WaitForNamedCacheSync w p
           \<and> (r = Inr () \<or> (\<exists>err. r = Inl (LogFatal (''Error running controller: '' @ err))))
           \<and> tr' = tr @ [InformerRun f, CacheSynced ''faas-netes:functions'' f,
                         InformerRun d, CacheSynced ''faas-netes:deployments'' d,
                         InformerRun e, CacheSynced ''faas-netes:endpoints'' e,
                         InformerRun p, CacheSynced ''faas-netes:profiles'' p,
                         Wired (Reconciler ctrl), Wired (ApiServer srv),
                         ServerStart srv, ControllerRun ctrl 1])"
  using assms(8) unfolding f_def d_def e_def p_def F_def ctrl_def srv_def
  by (auto simp: runOperator_def startInformers_def run_and_wait_def proc_defs Let_def
           split: if_splits option.splits)

lemma run_cases:
  assumes "run w = (tr, r)"
  shows "(tr = [] \<and> (\<exists>x. r = Inl x \<and> check_license w [] = ([], Inl x)))
       \<or> (\<exists>fl x. check_license w [] = ([], Inr fl) \<and> connect w fl [] = (tr, Inl x) \<and> r = Inl x)
       \<or> (\<exists>fl kc fc cfg pre. check_license w [] = ([], Inr fl)
             \<and> connect w fl [] = (pre, Inr (kc, fc, cfg)) \<and> \<not> operator fl
             \<and> runController w (main_setup cfg kc fc) (prometheusQuery (LookupEnv w)) pre = (tr, r))
       \<or> (\<exists>fl kc fc cfg pre. check_license w [] = ([], Inr fl)
             \<and> connect w fl [] = (pre, Inr (kc, fc, cfg)) \<and> operator fl
             \<and> runOperator w (main_setup cfg kc fc) cfg (prometheusQuery (LookupEnv w)) pre = (tr, r))"
proof -
  obtain t0 r0 where c: "check_license w [] = (t0, r0)" by (cases "check_license w []")
  then have t0: "t0 = []" by (rule check_license_trace)
  show ?thesis
  proof (cases r0)
    case (Inl x)
    with c t0 assms show ?thesis by (simp add: run_def main_def seq_def)
  next
    case (Inr fl)
    obtain t1 r1 where k: "connect w fl [] = (t1, r1)" by (cases "connect w fl []")
    show ?thesis
    proof (cases r1)
      case (Inl x)
      with c t0 Inr k assms show ?thesis by (simp add: run_def main_def seq_def)
    next
      case (Inr v)
      obtain kc fc cfg where v: "v = (kc, fc, cfg)" by (cases v)
      from c t0 \<open>r0 = Inr fl\<close> k Inr v assms show ?thesis
        by (cases "operator fl") (simp_all add: run_def main_def seq_def Let_def)
    qed
  qed
qed

lemma started_append: "started (xs @ ys) = started xs @ started ys"
  by (induction xs rule: started.induct) auto

lemma synced_append: "synced (xs @ ys) = synced xs @ synced ys"
  by (induction xs rule: synced.induct) auto

lemma workers_append: "workers (xs @ ys) = workers xs @ workers ys"
  by (induction xs rule: workers.induct) auto

lemma hasProduct_iff: "hasProduct s list \<longleftrightarrow> s \<in> set list"
  by (induction list) auto

lemma expiry_unix: "expiry = \<lparr>sec = 1647216000, nsec = 0\<rparr>"
  by (simp add: expiry_def Date_def days_from_civil_def)

lemma check_license_Inr:
  assumes "check_license w tr = (tr', Inr fl)"
  shows "\<not> After (now w) expiry \<and> cmdline w = Inr fl
         \<and> (license fl \<noteq> [] \<or> licenseFile fl \<noteq> [])
         \<and> (\<exists>lic tok. lic \<noteq> []
               \<and> (if licenseFile fl = [] then lic = license fl
                   else \<exists>res. ReadFile w (licenseFile fl) = Inr res \<and> lic = TrimSpace w res)
               \<and> LoadLicenseToken w lic (PublicKey w) = Inr tok
               \<and> hasProduct sku (Products tok))"
  using assms
  by (auto simp: check_license_def license_text_def proc_defs
           split: if_splits option.splits sum.splits)


lemma startInformers_started:
  assumes "startInformers w su op tr = (tr', r)"
  shows "\<exists>evs. tr' = tr @ evs \<and>
           set (started evs) \<subseteq> {Functions (faasInformerFactory su),
              Deployments (kubeInformerFactory su), Endpoints (kubeInformerFactory su),
              Profiles (profileInformerFactory su)}"
  using assms
  by (auto simp: startInformers_def run_and_wait_def proc_defs Let_def split: if_splits)

lemma factories_bootstrapHandlers:
  "concat (map handler_factories (handlers_list (bootstrapHandlers w su q l lk)))
     = [functionFactory su, functionFactory su]"
  by (simp add: bootstrapHandlers_def handlers_list_def Let_def)

lemma bootstrapHandlers_write:
  "DeployHandler (bootstrapHandlers w su q l lk)
     = MakeDeployHandler (DefaultFunctionNamespace (config su)) (functionFactory su)"
  "UpdateHandler (bootstrapHandlers w su q l lk)
     = MakeUpdateHandler (DefaultFunctionNamespace (config su)) (functionFactory su)"
  "DeleteHandler (bootstrapHandlers w su q l lk)
     = MakeDeleteHandler (DefaultFunctionNamespace (config su)) (kubeClient su)"
  by (simp_all add: bootstrapHandlers_def Let_def)

lemma not_After_iff: "\<not> After t u \<longleftrightarrow> Before t u \<or> t = u"
  by (cases t, cases u) (auto simp: After_def Before_def)

lemma check_license_Inl:
  assumes "check_license w tr = (tr', Inl x)"
  shows "fatal x \<or> (cmdline w = Inl 0 \<and> x = OsExit 0)"
  using assms
  by (auto simp: check_license_def license_text_def proc_defs
           split: if_splits sum.splits)

lemma check_license_expired:
  "After (now w) expiry \<Longrightarrow>
     check_license w tr = (tr, Inl (LogFatal
       ''This demo has expired. Please email contact@openfaas.com for more information.''))"
  by (simp add: check_license_def die_def)

lemmas eval_defs = run_def main_def check_license_def license_text_def connect_def
  runController_def runOperator_def startInformers_def run_and_wait_def
  seq_def ret_def emit_def die_def Let_def
  world0_def world_op_def world_op1_def world_nosync_def world_at_expiry_def world_expired_def
  flags0_def token0_def setup0_def rest0_def main_setup_def
  After_def Before_def expiry_def Date_def days_from_civil_def sku_def is_wiring_def
  setup1_def config0_def config1_def world_help_def

subsection \<open>What \<^verbatim>\<open>strconv.Atoi\<close> returns\<close>

text \<open>
  A result without error comes only from an optional sign and decimal digits; a syntax
  error comes with 0 and a range error with one of the two bounds of a 64-bit integer.
\<close>

lemma byte_less: "byte c < 256"
proof -
  have "(of_char c :: nat) mod 256 = of_char c" by (rule of_char_mod_256)
  moreover have "(of_char c :: nat) mod 256 < 256" by simp
  ultimately show ?thesis by (simp add: byte_def)
qed

lemma byte_sub_digit:
  "(byte c + 256 - 48) mod 256 \<le> 9 \<longleftrightarrow> is_digit c"
proof (cases "48 \<le> byte c")
  case False
  then have "byte c + 256 - 48 < 256" by simp
  then have "(byte c + 256 - 48) mod 256 = byte c + 256 - 48" by (rule mod_less)
  with False show ?thesis by (simp add: is_digit_def)
next
  case True
  then have "byte c + 256 - 48 = (byte c - 48) + 256" by simp
  then have "(byte c + 256 - 48) mod 256 = (byte c - 48) mod 256" by (simp only: mod_add_self2)
  also have "\<dots> = byte c - 48" using byte_less [of c] by (intro mod_less) simp
  finally show ?thesis using True by (simp add: is_digit_def le_diff_conv)
qed

lemma atoi_fast_digits: "atoi_fast s n = Some m \<Longrightarrow> list_all is_digit s"
proof (induction s arbitrary: n)
  case Nil
  then show ?case by simp
next
  case (Cons c s)
  show ?case
  proof (cases "is_digit c")
    case True
    with Cons.prems have "atoi_fast s (n * 10 + int ((byte c + 256 - 48) mod 256)) = Some m"
      unfolding atoi_fast.simps Let_def byte_sub_digit [symmetric] by (simp only: if_not_P not_less split: if_splits)
    from Cons.IH [OF this] True show ?thesis by simp
  next
    case False
    then have "\<not> (byte c + 256 - 48) mod 256 \<le> 9" unfolding byte_sub_digit .
    then have "atoi_fast (c # s) n = None"
      unfolding atoi_fast.simps Let_def by (simp only: not_le if_P)
    with Cons.prems show ?thesis by simp
  qed
qed

lemma parseUint_loop_step:
  "parseUint_loop (c # s) n =
     (if \<not> is_digit c then (0, Some ErrSyntax)
      else if n \<ge> maxUint64 div 10 + 1
              \<or> (n * 10 + (byte c - 48)) mod 2 ^ 64 < n * 10
              \<or> (n * 10 + (byte c - 48)) mod 2 ^ 64 > maxUint64
           then (maxUint64, Some ErrRange)
      else parseUint_loop s ((n * 10 + (byte c - 48)) mod 2 ^ 64))"
proof (cases "is_digit c")
  case True
  then have r: "48 \<le> byte c \<and> byte c \<le> 57" by (simp add: is_digit_def)
  then have lt: "\<not> 10 \<le> byte c - 48" by arith
  show ?thesis
    unfolding parseUint_loop.simps Let_def
    using True r lt by (simp only: if_True if_False option.case simp_thms split: if_splits) blast
next
  case False
  then have r: "\<not> (48 \<le> byte c \<and> byte c \<le> 57)" by (simp add: is_digit_def)
  have "10 \<le> lower (byte c) - 97 + 10" by simp
  then show ?thesis
    unfolding parseUint_loop.simps Let_def
    using False r by (simp only: if_True if_False option.case simp_thms split: if_splits)
qed

lemma parseUint_loop_result:
  "parseUint_loop s n = (m, e) \<Longrightarrow>
     (e = None \<longrightarrow> list_all is_digit s)
   \<and> (e = Some ErrSyntax \<longrightarrow> m = 0)
   \<and> (e = Some ErrRange \<longrightarrow> m = maxUint64)"
proof (induction s arbitrary: n)
  case Nil
  then show ?case by simp
next
  case (Cons c s)
  let ?ovf = "n \<ge> maxUint64 div 10 + 1
              \<or> (n * 10 + (byte c - 48)) mod 2 ^ 64 < n * 10
              \<or> (n * 10 + (byte c - 48)) mod 2 ^ 64 > maxUint64"
  consider (bad) "\<not> is_digit c" | (ovf) "is_digit c" "?ovf" | (go) "is_digit c" "\<not> ?ovf"
    by blast
  then show ?case
  proof cases
    case bad
    with Cons.prems have "(0, Some ErrSyntax) = (m, e)"
      by (simp only: parseUint_loop_step if_True if_False simp_thms)
    then show ?thesis by auto
  next
    case ovf
    with Cons.prems have "(maxUint64, Some ErrRange) = (m, e)"
      by (simp only: parseUint_loop_step if_True if_False simp_thms)
    then show ?thesis by auto
  next
    case go
    with Cons.prems have "parseUint_loop s ((n * 10 + (byte c - 48)) mod 2 ^ 64) = (m, e)"
      by (simp only: parseUint_loop_step if_True if_False simp_thms)
    from Cons.IH [OF this] go(1) show ?thesis by simp
  qed
qed

lemma ParseUint_result:
  assumes "ParseUint t = (un, err)"
  shows "(err = None \<longrightarrow> t \<noteq> [] \<and> list_all is_digit t)
       \<and> (err = Some ErrRange \<longrightarrow> un = maxUint64)"
proof (cases "t = []")
  case True
  with assms show ?thesis by (auto simp: ParseUint_def)
next
  case False
  with assms have "parseUint_loop t 0 = (un, err)" by (simp add: ParseUint_def)
  from parseUint_loop_result [OF this] False show ?thesis by simp
qed

lemma ParseInt_result:
  assumes "ParseInt s = (m, e)"
  shows "(e = None \<longrightarrow> valid_integer s)
       \<and> (e = Some ErrSyntax \<longrightarrow> m = 0)
       \<and> (e = Some ErrRange \<longrightarrow> m = 2 ^ 63 - 1 \<or> m = - (2 ^ 63))"
proof (cases "s = []")
  case True
  with assms show ?thesis by (auto simp: ParseInt_def)
next
  case False
  define neg where "neg = (hd s = CHR ''-'')"
  define t where "t = (if hd s = CHR ''+'' \<or> neg then tl s else s)"
  obtain un err where u: "ParseUint t = (un, err)" by (cases "ParseUint t")
  note v = ParseUint_result [OF u]
  have vi: "valid_integer s \<longleftrightarrow> t \<noteq> [] \<and> list_all is_digit t"
    using False by (auto simp: valid_integer_def t_def neg_def Let_def)
  from assms False u
  have r: "(m, e) = (if err = Some ErrSyntax then (0, err)
           else if \<not> neg \<and> un \<ge> 2 ^ 63 then (int (2 ^ 63) - 1, Some ErrRange)
           else if neg \<and> un > 2 ^ 63 then (- int (2 ^ 63), Some ErrRange)
           else (if neg then - int un else int un, None))"
    unfolding ParseInt_def Let_def neg_def [symmetric]
    unfolding t_def [symmetric]
    by (simp only: if_False prod.case)
  have un: "err \<noteq> Some ErrSyntax \<Longrightarrow> err \<noteq> None \<Longrightarrow> un \<ge> 2 ^ 63 \<and> un > 2 ^ 63"
  proof -
    assume "err \<noteq> Some ErrSyntax" "err \<noteq> None"
    then have "err = Some ErrRange" by (cases err) (auto intro: num_error.exhaust)
    with v have "un = maxUint64" by simp
    then show ?thesis by (simp add: maxUint64_def)
  qed
  show ?thesis
  proof (cases "err = Some ErrSyntax")
    case True
    with r show ?thesis by simp
  next
    case ns: False
    show ?thesis
    proof (cases "err = None")
      case True
      with r v vi ns show ?thesis by (auto split: if_splits)
    next
      case False
      from un [OF ns False] r ns show ?thesis by (cases neg) auto
    qed
  qed
qed

lemma atoi_fast_all_digits:
  "list_all is_digit s \<Longrightarrow> \<exists>m. atoi_fast s n = Some m"
proof (induction s arbitrary: n)
  case Nil
  then show ?case by simp
next
  case (Cons c s)
  then have d: "(byte c + 256 - 48) mod 256 \<le> 9" and r: "list_all is_digit s"
    unfolding byte_sub_digit by simp_all
  from d have "atoi_fast (c # s) n = atoi_fast s (n * 10 + int ((byte c + 256 - 48) mod 256))"
    unfolding atoi_fast.simps Let_def by (simp only: not_less [symmetric] if_False)
  with Cons.IH [OF r] show ?case by simp
qed

lemma Atoi_fast_path:
  assumes "s \<noteq> []" "length s < 19"
  defines "t \<equiv> (if hd s = CHR ''-'' \<or> hd s = CHR ''+'' then tl s else s)"
  shows "Atoi s = (if t = [] then (0, Some ErrSyntax)
                   else case atoi_fast t 0 of
                          None \<Rightarrow> (0, Some ErrSyntax)
                        | Some n \<Rightarrow> (if hd s = CHR ''-'' then - n else n, None))"
    and "valid_integer s \<longleftrightarrow> t \<noteq> [] \<and> list_all is_digit t"
  using assms by (auto simp: Atoi_def valid_integer_def Let_def)

lemma Atoi_short:
  assumes "s \<noteq> []" "length s < 19" "\<not> valid_integer s"
  shows "Atoi s = (0, Some ErrSyntax)"
proof -
  let ?t = "if hd s = CHR ''-'' \<or> hd s = CHR ''+'' then tl s else s"
  from assms(3) Atoi_fast_path(2) [OF assms(1,2)]
  have "?t = [] \<or> \<not> list_all is_digit ?t" by blast
  then have "?t = [] \<or> atoi_fast ?t 0 = None"
    using atoi_fast_digits [of ?t 0] by (cases "atoi_fast ?t 0") auto
  then show ?thesis
    unfolding Atoi_fast_path(1) [OF assms(1,2)] by auto
qed

lemma Atoi_result:
  assumes "Atoi s = (m, e)"
  shows "(e = None \<longrightarrow> valid_integer s)
       \<and> (e = Some ErrSyntax \<longrightarrow> m = 0)
       \<and> (e = Some ErrRange \<longrightarrow> m = 2 ^ 63 - 1 \<or> m = - (2 ^ 63))"
proof (cases "s \<noteq> [] \<and> length s < 19")
  case False
  with assms have "ParseInt s = (m, e)" by (auto simp: Atoi_def split: if_splits)
  then show ?thesis by (rule ParseInt_result)
next
  case True
  then have s: "s \<noteq> []" "length s < 19" by simp_all
  show ?thesis
  proof (cases "valid_integer s")
    case False
    from Atoi_short [OF s False] assms show ?thesis by auto
  next
    case True
    let ?t = "if hd s = CHR ''-'' \<or> hd s = CHR ''+'' then tl s else s"
    from True Atoi_fast_path(2) [OF s] have t: "?t \<noteq> []" "list_all is_digit ?t" by blast+
    from atoi_fast_all_digits [OF t(2), of 0] obtain k where "atoi_fast ?t 0 = Some k" by blast
    with t(1) assms True show ?thesis
      unfolding Atoi_fast_path(1) [OF s] by auto
  qed
qed


lemma dec_ge: "n \<le> dec n s"
proof (induction s arbitrary: n)
  case Nil
  show ?case by simp
next
  case (Cons c s)
  have "n \<le> n * 10 + (byte c - 48)" by simp
  also have "\<dots> \<le> dec (n * 10 + (byte c - 48)) s" by (rule Cons.IH)
  finally show ?case by simp
qed

lemma digit_le: "is_digit c \<Longrightarrow> byte c - 48 \<le> 9"
  unfolding is_digit_def by arith

lemma dec_bound: "list_all is_digit s \<Longrightarrow> dec n s < (n + 1) * 10 ^ length s"
proof (induction s arbitrary: n)
  case Nil
  show ?case by simp
next
  case (Cons c s)
  then have d: "byte c - 48 \<le> 9" and r: "list_all is_digit s"
    by (simp_all add: digit_le)
  from Cons.IH [OF r] have "dec (n * 10 + (byte c - 48)) s < (n * 10 + (byte c - 48) + 1) * 10 ^ length s" .
  also from d have "\<dots> \<le> ((n + 1) * 10) * 10 ^ length s"
    by (intro mult_right_mono) simp_all
  finally show ?case by (simp add: algebra_simps)
qed

lemma parseUint_loop_digits:
  "list_all is_digit ds \<Longrightarrow> n \<le> maxUint64 \<Longrightarrow>
     parseUint_loop (ds @ rest) n =
       (if dec n ds > maxUint64 then (maxUint64, Some ErrRange)
        else parseUint_loop rest (dec n ds))"
proof (induction ds arbitrary: n)
  case Nil
  then show ?case by simp
next
  case (Cons c ds)
  then have dg: "is_digit c" and r: "list_all is_digit ds" by simp_all
  from dg have d: "byte c - 48 \<le> 9" by (rule digit_le)
  let ?n1 = "n * 10 + (byte c - 48)"
  have ge: "?n1 \<le> dec ?n1 ds" by (rule dec_ge)
  show ?case
  proof (cases "?n1 \<le> maxUint64")
    case True
    then have m: "?n1 mod 2 ^ 64 = ?n1" by (simp add: maxUint64_def)
    from True have c1: "\<not> maxUint64 div 10 + 1 \<le> n" by (simp add: maxUint64_def)
    have c2: "\<not> ?n1 < n * 10" by simp
    from True have c3: "\<not> maxUint64 < ?n1" by simp
    from c1 c2 c3 dg have "parseUint_loop ((c # ds) @ rest) n = parseUint_loop (ds @ rest) ?n1"
      by (simp only: append_Cons parseUint_loop_step m simp_thms if_False)
    also from Cons.IH [OF r True] have "\<dots> = (if dec ?n1 ds > maxUint64 then (maxUint64, Some ErrRange)
        else parseUint_loop rest (dec ?n1 ds))" .
    finally show ?thesis by simp
  next
    case False
    with ge have big: "dec n (c # ds) > maxUint64" by simp
    have ovf: "maxUint64 div 10 + 1 \<le> n \<or> ?n1 mod 2 ^ 64 < n * 10 \<or> maxUint64 < ?n1 mod 2 ^ 64"
    proof (cases "maxUint64 div 10 + 1 \<le> n")
      case True
      then show ?thesis by simp
    next
      case nl: False
      from False have lo: "2 ^ 64 \<le> ?n1" by (simp add: maxUint64_def)
      from nl d have hi: "?n1 < 2 * 2 ^ 64" by (simp add: maxUint64_def)
      from lo have "?n1 mod 2 ^ 64 = (?n1 - 2 ^ 64) mod 2 ^ 64" by (rule le_mod_geq)
      also from hi lo have "\<dots> = ?n1 - 2 ^ 64" by (intro mod_less) simp
      finally have "?n1 mod 2 ^ 64 = ?n1 - 2 ^ 64" .
      moreover from lo d have "?n1 - 2 ^ 64 < n * 10" by simp
      ultimately have "?n1 mod 2 ^ 64 < n * 10" by (simp only:)
      then show ?thesis by simp
    qed
    with dg have "parseUint_loop ((c # ds) @ rest) n = (maxUint64, Some ErrRange)"
      by (simp only: append_Cons parseUint_loop_step simp_thms if_False if_True)
    with big show ?thesis by simp
  qed
qed

lemma ParseInt_unfold:
  assumes "v \<noteq> []" and "ParseUint (unsigned_part v) = (un, err)"
  shows "ParseInt v =
     (if err = Some ErrSyntax then (0, err)
      else if \<not> hd v = CHR ''-'' \<and> un \<ge> 2 ^ 63 then (2 ^ 63 - 1, Some ErrRange)
      else if hd v = CHR ''-'' \<and> un > 2 ^ 63 then (- (2 ^ 63), Some ErrRange)
      else (if hd v = CHR ''-'' then - int un else int un, None))"
  using assms by (simp add: ParseInt_def unsigned_part_def Let_def)

lemma leading_split:
  "unsigned_part v = takeWhile is_digit (unsigned_part v) @ dropWhile is_digit (unsigned_part v)"
  by simp

lemma leading_small:
  assumes "length v < 19"
  shows "leading_value v \<le> maxUint64"
proof -
  let ?ds = "takeWhile is_digit (unsigned_part v)"
  have "length (unsigned_part v) \<le> length v" by (simp add: unsigned_part_def)
  moreover have "length ?ds \<le> length (unsigned_part v)" by (rule length_takeWhile_le)
  ultimately have l: "length ?ds \<le> 18" using assms by simp
  have "list_all is_digit ?ds" by (simp add: list_all_iff) (meson set_takeWhileD)
  from dec_bound [OF this, of 0] have "dec 0 ?ds < 10 ^ length ?ds" by simp
  also from l have "(10::nat) ^ length ?ds \<le> 10 ^ 18" by (intro power_increasing) simp_all
  finally show ?thesis by (simp add: leading_value_def maxUint64_def)
qed

lemma Atoi_overflow:
  assumes "leading_value v > maxUint64"
  shows "Atoi v = (if hd v = CHR ''-'' then - (2 ^ 63) else 2 ^ 63 - 1, Some ErrRange)"
proof -
  let ?s = "unsigned_part v"
  let ?ds = "takeWhile is_digit ?s"
  from assms leading_small [of v] have long: "\<not> length v < 19" by auto
  then have ne: "v \<noteq> []" by auto
  from long have a: "Atoi v = ParseInt v" by (simp add: Atoi_def)
  have dg: "list_all is_digit ?ds" by (simp add: list_all_iff) (meson set_takeWhileD)
  from assms have big: "dec 0 ?ds > maxUint64" by (simp add: leading_value_def)
  then have "?ds \<noteq> []" by (auto simp: maxUint64_def)
  then have sne: "?s \<noteq> []" by auto
  have "parseUint_loop (?ds @ dropWhile is_digit ?s) 0 = (maxUint64, Some ErrRange)"
    using parseUint_loop_digits [OF dg, of 0 "dropWhile is_digit ?s"] big by simp
  then have "parseUint_loop ?s 0 = (maxUint64, Some ErrRange)" by simp
  with sne have u: "ParseUint ?s = (maxUint64, Some ErrRange)" by (simp add: ParseUint_def)
  show ?thesis
    unfolding a ParseInt_unfold [OF ne u] by (simp add: maxUint64_def)
qed

lemma Atoi_invalid_no_overflow:
  assumes "v \<noteq> []" "\<not> valid_integer v" "leading_value v \<le> maxUint64"
  shows "Atoi v = (0, Some ErrSyntax)"
proof (cases "length v < 19")
  case True
  with assms show ?thesis by (intro Atoi_short)
next
  case False
  then have a: "Atoi v = ParseInt v" by (simp add: Atoi_def)
  let ?s = "unsigned_part v"
  let ?ds = "takeWhile is_digit ?s"
  let ?rest = "dropWhile is_digit ?s"
  from assms(2) have inv: "?s = [] \<or> \<not> list_all is_digit ?s"
    by (simp add: valid_integer_def unsigned_part_def Let_def)
  have u: "ParseUint ?s = (0, Some ErrSyntax)"
  proof (cases "?s = []")
    case True
    then show ?thesis by (simp add: ParseUint_def)
  next
    case sne: False
    with inv have "\<not> list_all is_digit ?s" by simp
    then have rne: "?rest \<noteq> []" by (simp add: list_all_iff dropWhile_eq_Nil_conv)
    then obtain c r where cr: "?rest = c # r" by (cases ?rest) auto
    from hd_dropWhile [OF rne] cr have nd: "\<not> is_digit c" by simp
    have dg: "list_all is_digit ?ds" by (simp add: list_all_iff) (meson set_takeWhileD)
    from assms(3) have small: "\<not> dec 0 ?ds > maxUint64" by (simp add: leading_value_def)
    have "parseUint_loop (?ds @ ?rest) 0 = parseUint_loop ?rest (dec 0 ?ds)"
      using parseUint_loop_digits [OF dg, of 0 ?rest] small by simp
    also from nd have "\<dots> = (0, Some ErrSyntax)"
      unfolding cr by (simp only: parseUint_loop_step if_True simp_thms)
    finally have "parseUint_loop ?s 0 = (0, Some ErrSyntax)" by simp
    with sne show ?thesis by (simp add: ParseUint_def)
  qed
  show ?thesis unfolding a ParseInt_unfold [OF assms(1) u] by simp
qed

subsection \<open>The informers each mode starts\<close>

text \<open>
  C1, as amended. Whenever \<^verbatim>\<open>startInformers\<close> returns, the informers it has started
  and waited for are, in operator mode, those of all four resource kinds (Functions,
  Deployments, Endpoints, Profiles) and, in controller mode, those of Deployments,
  Endpoints and Profiles only: the Function informer is started and synced exactly when
  the operator flag is set, and \<^verbatim>\<open>FunctionsInformer\<close> is nil otherwise.
\<close>

theorem informer_set_by_mode:
  assumes "startInformers w su op [] = (tr, Inr l)"
  shows "kind_of ` set (started tr) =
           (if op then {FunctionKind, DeploymentKind, EndpointsKind, ProfileKind}
            else {DeploymentKind, EndpointsKind, ProfileKind})
         \<and> synced tr = started tr
         \<and> (FunctionKind \<in> kind_of ` set (started tr) \<longleftrightarrow> op)
         \<and> (FunctionsInformer l = None \<longleftrightarrow> \<not> op)"
  using assms
  by (auto simp: startInformers_def run_and_wait_def proc_defs Let_def split: if_splits)

text \<open>
  In the world where every cache syncs, \<^verbatim>\<open>startInformers\<close> returns in both modes.
\<close>

theorem informer_set_by_mode_witness:
  "startInformers world0 setup0 False [] =
     ([InformerRun (Deployments (kubeInformerFactory setup0)),
       CacheSynced ''faas-netes:deployments'' (Deployments (kubeInformerFactory setup0)),
       InformerRun (Endpoints (kubeInformerFactory setup0)),
       CacheSynced ''faas-netes:endpoints'' (Endpoints (kubeInformerFactory setup0)),
       InformerRun (Profiles (profileInformerFactory setup0)),
       CacheSynced ''faas-netes:profiles'' (Profiles (profileInformerFactory setup0))],
      Inr \<lparr>EndpointsInformer = Endpoints (kubeInformerFactory setup0),
           DeploymentInformer = Deployments (kubeInformerFactory setup0),
           FunctionsInformer = None\<rparr>)
   \<and> kind_of ` set (started (fst (startInformers world0 setup0 False [])))
       = {DeploymentKind, EndpointsKind, ProfileKind}
   \<and> kind_of ` set (started (fst (startInformers world0 setup0 True [])))
       = {FunctionKind, DeploymentKind, EndpointsKind, ProfileKind}"
proof -
  have a: "startInformers world0 setup0 False [] =
     ([InformerRun (Deployments (kubeInformerFactory setup0)),
       CacheSynced ''faas-netes:deployments'' (Deployments (kubeInformerFactory setup0)),
       InformerRun (Endpoints (kubeInformerFactory setup0)),
       CacheSynced ''faas-netes:endpoints'' (Endpoints (kubeInformerFactory setup0)),
       InformerRun (Profiles (profileInformerFactory setup0)),
       CacheSynced ''faas-netes:profiles'' (Profiles (profileInformerFactory setup0))],
      Inr \<lparr>EndpointsInformer = Endpoints (kubeInformerFactory setup0),
           DeploymentInformer = Deployments (kubeInformerFactory setup0),
           FunctionsInformer = None\<rparr>)"
    by (simp add: startInformers_def run_and_wait_def proc_defs Let_def world0_def)
  have b: "startInformers world0 setup0 True [] =
     (fst (startInformers world0 setup0 True []),
      Inr \<lparr>EndpointsInformer = Endpoints (kubeInformerFactory setup0),
           DeploymentInformer = Deployments (kubeInformerFactory setup0),
           FunctionsInformer = Some (Functions (faasInformerFactory setup0))\<rparr>)"
    by (simp add: startInformers_def run_and_wait_def proc_defs Let_def world0_def)
  from informer_set_by_mode [OF a] informer_set_by_mode [OF b] a show ?thesis
    by simp
qed

text \<open>
  C1 as stated fails: in controller mode \<^verbatim>\<open>startInformers\<close> returns, and the whole
  run reaches \<^verbatim>\<open>faasProvider.Serve\<close>, without a Function informer ever started.
\<close>

theorem functions_informer_counterexample:
  "snd (startInformers world0 setup0 False []) =
     Inr \<lparr>EndpointsInformer = Endpoints (kubeInformerFactory setup0),
          DeploymentInformer = Deployments (kubeInformerFactory setup0),
          FunctionsInformer = None\<rparr>
   \<and> FunctionKind \<notin> kind_of ` set (started (fst (startInformers world0 setup0 False [])))
   \<and> FunctionKind \<notin> kind_of ` set (started (fst (run world0)))
   \<and> snd (run world0) = Inr ()"
  by (simp add: eval_defs)

subsection \<open>Cache sync before wiring\<close>

text \<open>
  C2. In every run, an informer that was started and whose initial cache sync does not
  complete ends the process with the fatal log line \<^verbatim>\<open>failed to wait for cache to sync\<close>,
  and nothing has been wired or started in that run; and in every run that wires or
  starts a handler set, a router, a reconciler or a server, every informer the run
  starts has been started and seen synced before the first such event.
\<close>

theorem sync_gates_wiring:
  assumes "run w = (tr, r)"
  shows "(\<forall>x \<in> set (started tr). \<not> WaitForNamedCacheSync w x \<longrightarrow>
            r = Inl (LogFatal ''failed to wait for cache to sync'') \<and> filter is_wiring tr = [])
         \<and> (filter is_wiring tr \<noteq> [] \<longrightarrow>
            set (started tr) \<subseteq> set (synced (takeWhile (\<lambda>e. \<not> is_wiring e) tr)))"
proof -
  from run_cases [OF assms] consider
      (gate) "tr = []"
    | (conn) fl x where "connect w fl [] = (tr, Inl x)" "r = Inl x"
    | (ctl) fl kc fc cfg pre where "connect w fl [] = (pre, Inr (kc, fc, cfg))"
        "runController w (main_setup cfg kc fc) (prometheusQuery (LookupEnv w)) pre = (tr, r)"
    | (opr) fl kc fc cfg pre where "connect w fl [] = (pre, Inr (kc, fc, cfg))"
        "runOperator w (main_setup cfg kc fc) cfg (prometheusQuery (LookupEnv w)) pre = (tr, r)"
    by blast
  then show ?thesis
  proof cases
    case gate
    then show ?thesis by simp
  next
    case conn
    from connect_cases [OF conn(1)] show ?thesis by auto
  next
    case ctl
    from connect_cases [OF ctl(1)] obtain evs where
      pre: "pre = evs" "started evs = []" "\<forall>e\<in>set evs. \<not> is_wiring e" by auto
    from runController_cases [OF ctl(2)] pre show ?thesis
      by (elim disjE conjE) (simp_all add: started_append synced_append is_wiring_def)
  next
    case opr
    from connect_cases [OF opr(1)] obtain evs where
      pre: "pre = evs" "started evs = []" "\<forall>e\<in>set evs. \<not> is_wiring e" by auto
    from runOperator_cases [OF opr(2)] pre show ?thesis
      by (elim disjE conjE) (auto simp add: started_append synced_append is_wiring_def)
  qed
qed

text \<open>
  Both hypotheses are met: with the Endpoints cache never syncing the run is fatal
  with nothing wired, and in the world where every cache syncs the handlers are wired
  after the three informers have synced.
\<close>

theorem sync_gates_wiring_witness:
  "Endpoints (kubeInformerFactory setup0) \<in> set (started (fst (run world_nosync)))
   \<and> \<not> WaitForNamedCacheSync world_nosync (Endpoints (kubeInformerFactory setup0))
   \<and> snd (run world_nosync) = Inl (LogFatal ''failed to wait for cache to sync'')
   \<and> filter is_wiring (fst (run world_nosync)) = []
   \<and> filter is_wiring (fst (run world0)) \<noteq> []
   \<and> set (started (fst (run world0)))
       \<subseteq> set (synced (takeWhile (\<lambda>e. \<not> is_wiring e) (fst (run world0))))"
proof -
  have a: "Endpoints (kubeInformerFactory setup0) \<in> set (started (fst (run world_nosync)))"
    by (simp add: eval_defs)
  have b: "\<not> WaitForNamedCacheSync world_nosync (Endpoints (kubeInformerFactory setup0))"
    by (simp add: world_nosync_def)
  have c: "filter is_wiring (fst (run world0)) \<noteq> []"
    by (simp add: eval_defs)
  have n: "run world_nosync = (fst (run world_nosync), snd (run world_nosync))"
    and m: "run world0 = (fst (run world0), snd (run world0))"
    by simp_all
  from sync_gates_wiring [OF n] a b
  have d: "snd (run world_nosync) = Inl (LogFatal ''failed to wait for cache to sync'')
           \<and> filter is_wiring (fst (run world_nosync)) = []"
    by blast
  from sync_gates_wiring [OF m] c
  have e: "set (started (fst (run world0)))
             \<subseteq> set (synced (takeWhile (\<lambda>e. \<not> is_wiring e) (fst (run world0))))"
    by blast
  from a b c d e show ?thesis by blast
qed

subsection \<open>The two modes\<close>

text \<open>
  C3, as amended. Let a run read the flags \<open>fl\<close>, the client configuration \<open>c\<close> and the
  configuration \<open>cfg\<close>, and let \<open>su\<close> be the one \<^verbatim>\<open>serverSetup\<close> value \<^verbatim>\<open>main\<close>
  builds from them, which does not depend on the operator flag. With the flag false the
  run has no operator event (no reconciler, no \<^verbatim>\<open>ctrl.Run\<close>), every handler set it
  serves has its deploy and update handlers made from the setup's Function Factory and
  its delete handler from the setup's Kubernetes client alone (it is handed no Function
  Factory), and a run that returns ended
  in \<^verbatim>\<open>faasProvider.Serve\<close>. With the flag true the run has no controller event (no
  REST handler set, no \<^verbatim>\<open>Serve\<close>), every controller it runs is made from the setup's
  clients, its two informer factories and its Function Factory, and a run that returns
  ended in \<^verbatim>\<open>ctrl.Run\<close>. In both modes every informer started comes from the three
  factories of the setup.
\<close>

theorem mode_selection:
  assumes "run w = (tr, r)" and "cmdline w = Inr fl"
    and "BuildConfigFromFlags w (masterURL fl) (kubeconfig fl) = Inr c"
    and "ReadConfig w = Inr cfg"
  defines "kc \<equiv> KubeClientset (c\<lparr>QPS := 100, Burst := 250\<rparr>)"
    and "fc \<equiv> FaasClientset (c\<lparr>QPS := 100, Burst := 250\<rparr>)"
  defines "su \<equiv> main_setup cfg kc fc"
  shows "(\<not> operator fl \<longrightarrow>
            (\<forall>e \<in> set tr. \<not> operator_event e)
          \<and> (\<forall>h c'. Serve h c' \<in> set tr \<longrightarrow>
                DeployHandler h = MakeDeployHandler (DefaultFunctionNamespace cfg) (functionFactory su)
              \<and> UpdateHandler h = MakeUpdateHandler (DefaultFunctionNamespace cfg) (functionFactory su)
              \<and> DeleteHandler h = MakeDeleteHandler (DefaultFunctionNamespace cfg) kc
              \<and> handler_factories (DeleteHandler h) = [])
          \<and> (r = Inr () \<longrightarrow> (\<exists>h. last tr = Serve h (FaaSConfig cfg))))
       \<and> (operator fl \<longrightarrow>
            (\<forall>e \<in> set tr. \<not> controller_event e)
          \<and> (\<forall>ctrl n. ControllerRun ctrl n \<in> set tr \<longrightarrow>
                ctrl = NewController kc fc (kubeInformerFactory su) (faasInformerFactory su)
                         (FunctionFactory (functionFactory su)))
          \<and> (r = Inr () \<longrightarrow> (\<exists>ctrl n. last tr = ControllerRun ctrl n)))
       \<and> set (started tr) \<subseteq> {Functions (faasInformerFactory su),
              Deployments (kubeInformerFactory su), Endpoints (kubeInformerFactory su),
              Profiles (profileInformerFactory su)}"
proof -
  have sf: "config (main_setup cfg kc fc) = cfg" "kubeClient (main_setup cfg kc fc) = kc"
    "faasClient (main_setup cfg kc fc) = fc"
    by (simp_all add: main_setup_def Let_def)
  from run_cases [OF assms(1)] consider
      (gate) "tr = []" "\<exists>x. r = Inl x"
    | (conn) fl' x where "connect w fl' [] = (tr, Inl x)" "r = Inl x"
    | (ctl) fl' kc' fc' cfg' pre where "check_license w [] = ([], Inr fl')"
        "connect w fl' [] = (pre, Inr (kc', fc', cfg'))" "\<not> operator fl'"
        "runController w (main_setup cfg' kc' fc') (prometheusQuery (LookupEnv w)) pre = (tr, r)"
    | (opr) fl' kc' fc' cfg' pre where "check_license w [] = ([], Inr fl')"
        "connect w fl' [] = (pre, Inr (kc', fc', cfg'))" "operator fl'"
        "runOperator w (main_setup cfg' kc' fc') cfg' (prometheusQuery (LookupEnv w)) pre = (tr, r)"
    by blast
  then show ?thesis
  proof cases
    case gate
    then show ?thesis by auto
  next
    case conn
    from connect_cases [OF conn(1)] conn(2) show ?thesis
      by (auto simp: is_wiring_def)
  next
    case ctl
    from check_license_Inr [OF ctl(1)] assms(2) have fl: "fl' = fl" by simp
    from connect_cases [OF ctl(2)] assms(3,4) fl
    have pre: "started pre = []" "\<forall>e\<in>set pre. \<not> is_wiring e"
      and eq: "cfg' = cfg" "kc' = kc" "fc' = fc"
      by (auto simp: kc_def fc_def)
    from pre(2) have pre': "\<forall>e\<in>set pre. \<not> operator_event e \<and> \<not> controller_event e"
      "\<forall>h c'. Serve h c' \<notin> set pre"
      by (auto simp: is_wiring_def)
    from runController_cases [OF ctl(4)] pre(1) pre' ctl(3)
    show ?thesis unfolding fl eq su_def
      by (elim disjE conjE) (auto simp: started_append bootstrapHandlers_write sf)
  next
    case opr
    from check_license_Inr [OF opr(1)] assms(2) have fl: "fl' = fl" by simp
    from connect_cases [OF opr(2)] assms(3,4) fl
    have pre: "started pre = []" "\<forall>e\<in>set pre. \<not> is_wiring e"
      and eq: "cfg' = cfg" "kc' = kc" "fc' = fc"
      by (auto simp: kc_def fc_def)
    from pre(2) have pre': "\<forall>e\<in>set pre. \<not> operator_event e \<and> \<not> controller_event e"
      "\<forall>ctrl n. ControllerRun ctrl n \<notin> set pre"
      by (auto simp: is_wiring_def)
    from runOperator_cases [OF opr(4)] pre(1) pre' opr(3)
    show ?thesis unfolding fl eq su_def
      by (elim disjE conjE) (auto simp: started_append sf)
  qed
qed

text \<open>
  The sample runs of the controller and of the operator meet the hypotheses.
\<close>

theorem mode_selection_witness:
  "cmdline world0 = Inr flags0 \<and> \<not> operator flags0 \<and> snd (run world0) = Inr ()
   \<and> filter operator_event (fst (run world0)) = []
   \<and> (\<exists>h. last (fst (run world0)) = Serve h (FaaSConfig config0))
   \<and> cmdline world_op = Inr (flags0\<lparr>operator := True\<rparr>)
   \<and> operator (flags0\<lparr>operator := True\<rparr>) \<and> snd (run world_op) = Inr ()
   \<and> filter controller_event (fst (run world_op)) = []
   \<and> (\<exists>ctrl n. last (fst (run world_op)) = ControllerRun ctrl n)"
proof -
  let ?c = "\<lparr>Host = ''https://10.0.0.1:443'', QPS = 5, Burst = 10\<rparr>"
  have a: "run world0 = (fst (run world0), snd (run world0))"
    and b: "run world_op = (fst (run world_op), snd (run world_op))"
    by simp_all
  have h0: "cmdline world0 = Inr flags0" "\<not> operator flags0"
    "BuildConfigFromFlags world0 (masterURL flags0) (kubeconfig flags0) = Inr ?c"
    "ReadConfig world0 = Inr config0" "snd (run world0) = Inr ()"
    by (simp_all add: eval_defs)
  have h1: "cmdline world_op = Inr (flags0\<lparr>operator := True\<rparr>)"
    "operator (flags0\<lparr>operator := True\<rparr>)"
    "BuildConfigFromFlags world_op (masterURL (flags0\<lparr>operator := True\<rparr>))
        (kubeconfig (flags0\<lparr>operator := True\<rparr>)) = Inr ?c"
    "ReadConfig world_op = Inr config0" "snd (run world_op) = Inr ()"
    by (simp_all add: eval_defs)
  from mode_selection [OF a h0(1) h0(3) h0(4)] h0(2) h0(5)
  have c0: "\<forall>e \<in> set (fst (run world0)). \<not> operator_event e"
    "\<exists>h. last (fst (run world0)) = Serve h (FaaSConfig config0)"
    by blast+
  from mode_selection [OF b h1(1) h1(3) h1(4)] h1(2) h1(5)
  have c1: "\<forall>e \<in> set (fst (run world_op)). \<not> controller_event e"
    "\<exists>ctrl n. last (fst (run world_op)) = ControllerRun ctrl n"
    by blast+
  from c0(1) c1(1) have f: "filter operator_event (fst (run world0)) = []"
    "filter controller_event (fst (run world_op)) = []"
    by (simp_all only: filter_empty_conv)
  from h0 h1 c0(2) c1(2) f show ?thesis by blast
qed

text \<open>
  C3 as stated fails for the delete handler: in the controller's sample run the handler
  set served has a delete handler made from the namespace and the Kubernetes client
  only, holding no Function Factory, while the deploy and update handlers hold the
  setup's.
\<close>

theorem delete_handler_counterexample:
  "last (fst (run world0)) = Serve handlers0 (FaaSConfig config0)
   \<and> DeleteHandler handlers0 = MakeDeleteHandler ''openfaas-fn'' (KubeClientset rest0)
   \<and> handler_factories (DeleteHandler handlers0) = []
   \<and> handler_factories (DeployHandler handlers0) = [functionFactory setup0]
   \<and> handler_factories (UpdateHandler handlers0) = [functionFactory setup0]"
  by (simp add: eval_defs handlers0_def bootstrapHandlers_def prometheusQuery_def)

subsection \<open>Namespace scope\<close>

text \<open>
  C4. The two factories for Deployments, Endpoints and Functions are made with the
  empty namespace (all namespaces) when \<^verbatim>\<open>ClusterRole\<close> is set and with
  \<^verbatim>\<open>DefaultFunctionNamespace\<close> otherwise; every informer of these three kinds that
  \<^verbatim>\<open>startInformers\<close> starts has that scope; and the function lookup \<^verbatim>\<open>runController\<close>
  wires is made with \<^verbatim>\<open>DefaultFunctionNamespace\<close> and the lister of the Endpoints
  informer.
\<close>

theorem namespace_scoping:
  "namespace (kubeInformerFactory (main_setup cfg kc fc))
     = (if ClusterRole cfg then [] else DefaultFunctionNamespace cfg)
   \<and> namespace (faasInformerFactory (main_setup cfg kc fc))
     = (if ClusterRole cfg then [] else DefaultFunctionNamespace cfg)
   \<and> (\<forall>x \<in> set (started (fst (startInformers w (main_setup cfg kc fc) op []))).
        kind_of x \<in> {DeploymentKind, EndpointsKind, FunctionKind} \<longrightarrow>
        scope_of x = (if ClusterRole cfg then [] else DefaultFunctionNamespace cfg))
   \<and> (\<forall>lk. Wired (Router lk) \<in> set (fst (runController w (main_setup cfg kc fc) q [])) \<longrightarrow>
        lk = NewFunctionLookup (DefaultFunctionNamespace cfg)
               (Lister (Endpoints (kubeInformerFactory (main_setup cfg kc fc)))))"
proof -
  let ?su = "main_setup cfg kc fc"
  have ns: "namespace (kubeInformerFactory ?su)
              = (if ClusterRole cfg then [] else DefaultFunctionNamespace cfg)"
    "namespace (faasInformerFactory ?su)
              = (if ClusterRole cfg then [] else DefaultFunctionNamespace cfg)"
    by (simp_all add: main_setup_def namespaceScope_def Let_def)
  have cf: "config ?su = cfg" by (simp add: main_setup_def Let_def)
  obtain tr r where s: "startInformers w ?su op [] = (tr, r)"
    by (cases "startInformers w ?su op []")
  from startInformers_started [OF s] ns
  have a: "\<forall>x \<in> set (started tr).
        kind_of x \<in> {DeploymentKind, EndpointsKind, FunctionKind} \<longrightarrow>
        scope_of x = (if ClusterRole cfg then [] else DefaultFunctionNamespace cfg)"
    by auto
  obtain tr2 r2 where c: "runController w ?su q [] = (tr2, r2)"
    by (cases "runController w ?su q []")
  from runController_cases [OF c] cf
  have b: "\<forall>lk. Wired (Router lk) \<in> set tr2 \<longrightarrow>
        lk = NewFunctionLookup (DefaultFunctionNamespace cfg)
               (Lister (Endpoints (kubeInformerFactory ?su)))"
    by (elim disjE conjE) simp_all
  from ns a b s c show ?thesis by simp
qed

text \<open>
  A namespaced setup and a cluster-wide one meet the hypotheses.
\<close>

theorem namespace_scoping_witness:
  "Deployments (kubeInformerFactory setup0)
     \<in> set (started (fst (startInformers world0 setup0 False [])))
   \<and> scope_of (Deployments (kubeInformerFactory setup0)) = ''openfaas-fn''
   \<and> Functions (faasInformerFactory setup1)
     \<in> set (started (fst (startInformers world0 setup1 True [])))
   \<and> ClusterRole config1
   \<and> scope_of (Functions (faasInformerFactory setup1)) = []
   \<and> Wired (Router (NewFunctionLookup ''fn'' (Lister (Endpoints (kubeInformerFactory setup1)))))
     \<in> set (fst (runController world0 setup1 (prometheusQuery env_words) []))"
proof -
  have a: "Deployments (kubeInformerFactory setup0)
     \<in> set (started (fst (startInformers world0 setup0 False [])))"
    "Functions (faasInformerFactory setup1)
     \<in> set (started (fst (startInformers world0 setup1 True [])))"
    by (simp_all add: startInformers_def run_and_wait_def proc_defs Let_def world0_def)
  have k: "kind_of (Deployments (kubeInformerFactory setup0))
             \<in> {DeploymentKind, EndpointsKind, FunctionKind}"
    "kind_of (Functions (faasInformerFactory setup1))
             \<in> {DeploymentKind, EndpointsKind, FunctionKind}"
    by simp_all
  have c: "\<not> ClusterRole config0" "DefaultFunctionNamespace config0 = ''openfaas-fn''"
    "ClusterRole config1" "DefaultFunctionNamespace config1 = ''fn''"
    by (simp_all add: config0_def config1_def)
  have b: "Wired (Router (NewFunctionLookup ''fn'' (Lister (Endpoints (kubeInformerFactory setup1)))))
     \<in> set (fst (runController world0 setup1 (prometheusQuery env_words) []))"
    by (simp add: runController_def startInformers_def run_and_wait_def proc_defs Let_def
          world0_def setup1_def main_setup_def config1_def)
  note t0 = namespace_scoping [of config0 "KubeClientset rest0" "FaasClientset rest0" world0 False
      "prometheusQuery env_words", folded setup0_def]
  note t1 = namespace_scoping [of config1 "KubeClientset rest0" "FaasClientset rest0" world0 True
      "prometheusQuery env_words", folded setup1_def]
  from t0 a(1) k(1) c(1,2)
  have d0: "scope_of (Deployments (kubeInformerFactory setup0)) = ''openfaas-fn''"
    by (metis (no_types, lifting))
  from t1 a(2) k(2) c(3)
  have d1: "scope_of (Functions (faasInformerFactory setup1)) = []"
    by (metis (no_types, lifting))
  from a b c(3) d0 d1 show ?thesis by blast
qed

subsection \<open>The number of reconcile workers\<close>

text \<open>
  C5, as amended. The number of workers \<^verbatim>\<open>runOperator\<close> passes to the controller's
  \<^verbatim>\<open>Run\<close> is the literal 1 in every run, whatever the configuration, the environment
  and the command line: a trace holds no call of \<^verbatim>\<open>ctrl.Run\<close> or one call with 1,
  and when every cache syncs \<^verbatim>\<open>runOperator\<close> makes that one call.
\<close>

theorem workers_fixed:
  "workers (fst (run w)) \<in> {[], [1]}
   \<and> workers (fst (runOperator w su cfg q [])) \<in> {[], [1]}
   \<and> ((\<forall>x. WaitForNamedCacheSync w x) \<longrightarrow>
         workers (fst (runOperator w su cfg q [])) = [1])"
proof -
  have op: "workers tr \<in> {[], [1]}" if "runOperator w' su' cfg' q' pre = (tr, r)"
    and "workers pre = []" for w' su' cfg' q' pre tr r
    using runOperator_cases [OF that(1)] that(2)
    by (elim disjE conjE) (simp_all add: workers_append)
  have "workers tr \<in> {[], [1]}" if run: "run w = (tr, r)" for tr r
  proof -
    from run_cases [OF run] consider
        (gate) "tr = []"
      | (conn) fl x where "connect w fl [] = (tr, Inl x)"
      | (ctl) fl kc fc cfg pre where "connect w fl [] = (pre, Inr (kc, fc, cfg))"
          "runController w (main_setup cfg kc fc) (prometheusQuery (LookupEnv w)) pre = (tr, r)"
      | (opr) fl kc fc cfg pre where "connect w fl [] = (pre, Inr (kc, fc, cfg))"
          "runOperator w (main_setup cfg kc fc) cfg (prometheusQuery (LookupEnv w)) pre = (tr, r)"
      by blast
    then show ?thesis
    proof cases
      case gate
      then show ?thesis by simp
    next
      case conn
      from connect_cases [OF conn] show ?thesis by auto
    next
      case ctl
      from connect_cases [OF ctl(1)] have "workers pre = []" by auto
      with runController_cases [OF ctl(2)] show ?thesis
        by (elim disjE conjE) (simp_all add: workers_append)
    next
      case opr
      from connect_cases [OF opr(1)] have "workers pre = []" by auto
      with op [OF opr(2)] show ?thesis by simp
    qed
  qed
  have all: "workers tr = [1]" if "runOperator w su cfg q [] = (tr, r)"
    and "\<forall>x. WaitForNamedCacheSync w x" for tr r
    using runOperator_cases [OF that(1)] that(2)
    by (elim disjE conjE) simp_all
  from this [of "fst (runOperator w su cfg q [])" "snd (runOperator w su cfg q [])"]
    \<open>\<And>tr r. run w = (tr, r) \<Longrightarrow> workers tr \<in> {[], [1]}\<close> [of "fst (run w)" "snd (run w)"]
    op [of w su cfg q "[]" "fst (runOperator w su cfg q [])" "snd (runOperator w su cfg q [])"]
  show ?thesis by simp
qed

text \<open>In the world where every cache syncs the operator calls \<^verbatim>\<open>ctrl.Run\<close> with 1.\<close>

theorem workers_fixed_witness:
  "WaitForNamedCacheSync world0 (Functions (faasInformerFactory setup0))
   \<and> workers (fst (runOperator world0 setup1 config1 (prometheusQuery env_words) [])) = [1]"
proof -
  have a: "\<forall>x. WaitForNamedCacheSync world0 x" by (simp add: world0_def)
  from workers_fixed [of world0 setup1 config1 "prometheusQuery env_words"] a
  have "workers (fst (runOperator world0 setup1 config1 (prometheusQuery env_words) [])) = [1]"
    by blast
  with a show ?thesis by blast
qed

text \<open>
  C5 as stated fails: two operator runs whose configurations differ in every field
  pass the same worker count, 1.
\<close>

theorem workers_configurable_counterexample:
  "ReadConfig world_op = Inr config0 \<and> ReadConfig world_op1 = Inr config1
   \<and> config0 \<noteq> config1
   \<and> workers (fst (run world_op)) = [1] \<and> workers (fst (run world_op1)) = [1]"
  by (simp add: eval_defs config0_def config1_def)

subsection \<open>The deployment configuration\<close>

text \<open>
  C6. The \<^verbatim>\<open>DeploymentConfig\<close> built from a configuration has
  \<^verbatim>\<open>RuntimeHTTPPort\<close> 8080 and takes the HTTP-probe toggle, the non-root setting, the
  image pull policy, the profiles namespace and the six probe timings (converted to
  \<^verbatim>\<open>int32\<close>) from it; it is the configuration held by the Function Factory of the
  setup; and in every run, every Function Factory handed to a handler or to the
  reconciler, in either mode, still holds the \<^verbatim>\<open>DeploymentConfig\<close> built from the
  configuration read at startup.
\<close>

theorem deployment_config_fixed:
  assumes "run w = (tr, r)"
  shows "RuntimeHTTPPort (deployConfig cfg) = 8080
     \<and> dc_HTTPProbe (deployConfig cfg) = HTTPProbe cfg
     \<and> dc_SetNonRootUser (deployConfig cfg) = SetNonRootUser cfg
     \<and> dc_ImagePullPolicy (deployConfig cfg) = ImagePullPolicy cfg
     \<and> dc_ProfilesNamespace (deployConfig cfg) = ProfilesNamespace cfg
     \<and> ReadinessProbe (deployConfig cfg) =
         \<lparr>InitialDelaySeconds = ucast (ReadinessProbeInitialDelaySeconds cfg),
          TimeoutSeconds = ucast (ReadinessProbeTimeoutSeconds cfg),
          PeriodSeconds = ucast (ReadinessProbePeriodSeconds cfg)\<rparr>
     \<and> LivenessProbe (deployConfig cfg) =
         \<lparr>InitialDelaySeconds = ucast (LivenessProbeInitialDelaySeconds cfg),
          TimeoutSeconds = ucast (LivenessProbeTimeoutSeconds cfg),
          PeriodSeconds = ucast (LivenessProbePeriodSeconds cfg)\<rparr>
     \<and> factory_config (functionFactory (main_setup cfg kc fc)) = deployConfig cfg
     \<and> (\<forall>e \<in> set tr. \<forall>f \<in> set (factories_in e).
           \<exists>cfg'. ReadConfig w = Inr cfg' \<and> factory_config f = deployConfig cfg')"
proof -
  have fc: "factory_config (functionFactory (main_setup c k f)) = deployConfig c" for c k f
    by (simp add: main_setup_def Let_def)
  have su: "kubeClient (main_setup c k f) = k" "faasClient (main_setup c k f) = f" for c k f
    by (simp_all add: main_setup_def Let_def)
  have "\<forall>e \<in> set tr. \<forall>f \<in> set (factories_in e).
           \<exists>cfg'. ReadConfig w = Inr cfg' \<and> factory_config f = deployConfig cfg'"
  proof -
    from run_cases [OF assms] consider
        (gate) "tr = []"
      | (conn) fl x where "connect w fl [] = (tr, Inl x)"
      | (ctl) fl kc fc cfg pre where "connect w fl [] = (pre, Inr (kc, fc, cfg))"
          "runController w (main_setup cfg kc fc) (prometheusQuery (LookupEnv w)) pre = (tr, r)"
      | (opr) fl kc fc cfg pre where "connect w fl [] = (pre, Inr (kc, fc, cfg))"
          "runOperator w (main_setup cfg kc fc) cfg (prometheusQuery (LookupEnv w)) pre = (tr, r)"
      by blast
    then show ?thesis
    proof cases
      case gate
      then show ?thesis by simp
    next
      case conn
      from connect_cases [OF conn] show ?thesis by auto
    next
      case ctl
      from connect_cases [OF ctl(1)]
      have pre: "\<forall>e\<in>set pre. factories_in e = []" and rc: "ReadConfig w = Inr cfg"
        by auto
      from runController_cases [OF ctl(2)] pre rc show ?thesis
        by (elim disjE conjE) (simp_all add: factories_bootstrapHandlers fc)
    next
      case opr
      from connect_cases [OF opr(1)]
      have pre: "\<forall>e\<in>set pre. factories_in e = []" and rc: "ReadConfig w = Inr cfg"
        by auto
      from runOperator_cases [OF opr(2)] pre rc show ?thesis
        by (elim disjE conjE) (simp_all add: fc)
    qed
  qed
  then show ?thesis
    by (simp add: fc) (simp add: deployConfig_def)
qed

text \<open>
  The operator's sample run hands the setup's factory to the reconciler.
\<close>

theorem deployment_config_fixed_witness:
  "last (fst (run world_op)) \<in> set (fst (run world_op))
   \<and> functionFactory setup0 \<in> set (factories_in (last (fst (run world_op))))
   \<and> ReadConfig world_op = Inr config0
   \<and> factory_config (functionFactory setup0) = deployConfig config0
   \<and> RuntimeHTTPPort (deployConfig config0) = 8080
   \<and> DeployHandler (bootstrapHandlers world0 setup0 (prometheusQuery env_words)
         \<lparr>EndpointsInformer = Endpoints (kubeInformerFactory setup0),
          DeploymentInformer = Deployments (kubeInformerFactory setup0),
          FunctionsInformer = None\<rparr>
         (NewFunctionLookup ''openfaas-fn'' (Lister (Endpoints (kubeInformerFactory setup0)))))
       = MakeDeployHandler ''openfaas-fn'' (functionFactory setup0)"
proof -
  have a: "run world_op = (fst (run world_op), snd (run world_op))" by simp
  have h: "last (fst (run world_op)) \<in> set (fst (run world_op))"
    "functionFactory setup0 \<in> set (factories_in (last (fst (run world_op))))"
    "ReadConfig world_op = Inr config0"
    by (simp_all add: eval_defs)
  have d: "DeployHandler (bootstrapHandlers world0 setup0 (prometheusQuery env_words)
         \<lparr>EndpointsInformer = Endpoints (kubeInformerFactory setup0),
          DeploymentInformer = Deployments (kubeInformerFactory setup0),
          FunctionsInformer = None\<rparr>
         (NewFunctionLookup ''openfaas-fn'' (Lister (Endpoints (kubeInformerFactory setup0)))))
       = MakeDeployHandler ''openfaas-fn'' (functionFactory setup0)"
    by (simp add: bootstrapHandlers_def Let_def setup0_def main_setup_def config0_def)
  note t = deployment_config_fixed [OF a, of config0 "KubeClientset rest0" "FaasClientset rest0"]
  from t h have "\<exists>cfg'. ReadConfig world_op = Inr cfg'
       \<and> factory_config (functionFactory setup0) = deployConfig cfg'"
    by blast
  with h(3) have e: "factory_config (functionFactory setup0) = deployConfig config0" by auto
  from t have p: "RuntimeHTTPPort (deployConfig config0) = 8080" by blast
  from h d e p show ?thesis by blast
qed

subsection \<open>The resync period\<close>

text \<open>
  C7. Each of the three informer factories \<^verbatim>\<open>main\<close> creates (Kubernetes resources,
  Function custom resources, Profile custom resources) has the resync period
  \<^verbatim>\<open>time.Minute * 5\<close>, that is 300 seconds, and so has each of the four informers
  \<^verbatim>\<open>startInformers\<close> takes from them.
\<close>

theorem resync_five_minutes:
  "resync (kubeInformerFactory (main_setup cfg kc fc)) = 5 * Minute
   \<and> resync (faasInformerFactory (main_setup cfg kc fc)) = 5 * Minute
   \<and> resync (profileInformerFactory (main_setup cfg kc fc)) = 5 * Minute
   \<and> map resync_of
         [Functions (faasInformerFactory (main_setup cfg kc fc)),
          Deployments (kubeInformerFactory (main_setup cfg kc fc)),
          Endpoints (kubeInformerFactory (main_setup cfg kc fc)),
          Profiles (profileInformerFactory (main_setup cfg kc fc))]
       = [5 * Minute, 5 * Minute, 5 * Minute, 5 * Minute]
   \<and> 5 * Minute = 300 * Second"
  by (simp add: main_setup_def defaultResync_def Minute_def Second_def Let_def)

subsection \<open>The startup gates\<close>

text \<open>
  C8, as amended. A run that does anything at all towards the cluster has passed
  four gates: the clock is not after 2022-03-14T00:00:00Z (it is before it or reads
  exactly that instant), the command line parsed and gave \<^verbatim>\<open>--license\<close> or
  \<^verbatim>\<open>--license-file\<close>, the license text (the flag's value, or the trimmed content of
  the file when a file is named) is not empty and loads against the public key, and
  the token's products contain \<open>openfaas-pro\<close>. A run that does nothing towards the
  cluster has ended the process, and fatally (\<^verbatim>\<open>log.Fatalf\<close>, a panic, or an exit with
  a status other than 0), the one exception being a command line on which
  \<^verbatim>\<open>flag.Parse\<close> itself exits with status 0. After that instant every run, in either
  mode, ends with the fatal line on the expired demo before doing anything.
\<close>

theorem startup_gates:
  assumes "run w = (tr, r)"
  shows "(tr \<noteq> [] \<longrightarrow>
            (Before (now w) (Date 2022 3 14 0 0 0 0) \<or> now w = Date 2022 3 14 0 0 0 0)
          \<and> (\<exists>fl. cmdline w = Inr fl
                \<and> (license fl \<noteq> [] \<or> licenseFile fl \<noteq> [])
                \<and> (\<exists>lic tok. lic \<noteq> []
                      \<and> (if licenseFile fl = [] then lic = license fl
                          else \<exists>res. ReadFile w (licenseFile fl) = Inr res
                                     \<and> lic = TrimSpace w res)
                      \<and> LoadLicenseToken w lic (PublicKey w) = Inr tok
                      \<and> ''openfaas-pro'' \<in> set (Products tok))))
       \<and> (tr = [] \<longrightarrow>
            (\<exists>x. r = Inl x \<and> (fatal x \<or> (cmdline w = Inl 0 \<and> x = OsExit 0))))
       \<and> (tr = [] \<and> cmdline w \<noteq> Inl 0 \<longrightarrow> (\<exists>x. r = Inl x \<and> fatal x))
       \<and> (After (now w) (Date 2022 3 14 0 0 0 0) \<longrightarrow>
            tr = [] \<and> r = Inl (LogFatal
              ''This demo has expired. Please email contact@openfaas.com for more information.''))"
proof -
  have gates: "(Before (now w) (Date 2022 3 14 0 0 0 0) \<or> now w = Date 2022 3 14 0 0 0 0)
          \<and> (\<exists>fl. cmdline w = Inr fl
                \<and> (license fl \<noteq> [] \<or> licenseFile fl \<noteq> [])
                \<and> (\<exists>lic tok. lic \<noteq> []
                      \<and> (if licenseFile fl = [] then lic = license fl
                          else \<exists>res. ReadFile w (licenseFile fl) = Inr res
                                     \<and> lic = TrimSpace w res)
                      \<and> LoadLicenseToken w lic (PublicKey w) = Inr tok
                      \<and> ''openfaas-pro'' \<in> set (Products tok)))"
    if "check_license w [] = ([], Inr fl)" for fl
    using check_license_Inr [OF that]
    unfolding not_After_iff hasProduct_iff sku_def expiry_def by blast
  have expired: "tr = [] \<and> r = Inl (LogFatal
              ''This demo has expired. Please email contact@openfaas.com for more information.'')"
    if "After (now w) (Date 2022 3 14 0 0 0 0)"
    using that assms check_license_expired [of w "[]"]
    by (simp add: run_def main_def seq_def expiry_def)
  from run_cases [OF assms] consider
      (gate) "tr = []" "\<exists>x. r = Inl x \<and> (fatal x \<or> (cmdline w = Inl 0 \<and> x = OsExit 0))"
    | (pass) fl where "check_license w [] = ([], Inr fl)" "tr \<noteq> []"
  proof (elim disjE exE conjE)
    fix fl x assume "check_license w [] = ([], Inr fl)" "connect w fl [] = (tr, Inl x)"
    with connect_cases [of w fl "[]" tr "Inl x"] show ?thesis
      by (intro that(2) [of fl]) auto
  next
    fix fl kc fc cfg pre
    assume a: "check_license w [] = ([], Inr fl)" "connect w fl [] = (pre, Inr (kc, fc, cfg))"
      "runController w (main_setup cfg kc fc) (prometheusQuery (LookupEnv w)) pre = (tr, r)"
    from runController_cases [OF a(3)] have "tr \<noteq> []" by auto
    with a(1) show ?thesis by (rule that(2))
  next
    fix fl kc fc cfg pre
    assume a: "check_license w [] = ([], Inr fl)" "connect w fl [] = (pre, Inr (kc, fc, cfg))"
      "runOperator w (main_setup cfg kc fc) cfg (prometheusQuery (LookupEnv w)) pre = (tr, r)"
    from runOperator_cases [OF a(3)] have "tr \<noteq> []" by auto
    with a(1) show ?thesis by (rule that(2))
  qed (auto intro: that(1) dest: check_license_Inl)
  then show ?thesis
  proof cases
    case gate
    with expired show ?thesis by auto
  next
    case pass
    with gates [OF pass(1)] expired show ?thesis by blast
  qed
qed

text \<open>
  A licensed run before the date, and an operator run one second after it.
\<close>

theorem startup_gates_witness:
  "fst (run world0) \<noteq> []
   \<and> (Before (now world0) (Date 2022 3 14 0 0 0 0) \<or> now world0 = Date 2022 3 14 0 0 0 0)
   \<and> (\<exists>fl. cmdline world0 = Inr fl \<and> (license fl \<noteq> [] \<or> licenseFile fl \<noteq> []))
   \<and> After (now world_expired) (Date 2022 3 14 0 0 0 0)
   \<and> fst (run world_expired) = []
   \<and> snd (run world_expired) = Inl (LogFatal
        ''This demo has expired. Please email contact@openfaas.com for more information.'')
   \<and> cmdline world_expired \<noteq> Inl 0
   \<and> (\<exists>x. snd (run world_expired) = Inl x \<and> fatal x)"
proof -
  have a: "run world0 = (fst (run world0), snd (run world0))"
    and b: "run world_expired = (fst (run world_expired), snd (run world_expired))"
    by simp_all
  have h: "fst (run world0) \<noteq> []" "After (now world_expired) (Date 2022 3 14 0 0 0 0)"
    by (simp_all add: eval_defs)
  from startup_gates [OF a] h(1)
  have c: "Before (now world0) (Date 2022 3 14 0 0 0 0) \<or> now world0 = Date 2022 3 14 0 0 0 0"
    "\<exists>fl. cmdline world0 = Inr fl \<and> (license fl \<noteq> [] \<or> licenseFile fl \<noteq> [])"
    by blast+
  from startup_gates [OF b] h(2)
  have d: "fst (run world_expired) = []"
    "snd (run world_expired) = Inl (LogFatal
        ''This demo has expired. Please email contact@openfaas.com for more information.'')"
    by blast+
  have n: "cmdline world_expired \<noteq> Inl 0" by (simp add: eval_defs)
  from startup_gates [OF b] d(1) n
  have e: "\<exists>x. snd (run world_expired) = Inl x \<and> fatal x" by blast
  from h c d n e show ?thesis by blast
qed

text \<open>
  C8 as stated fails at the boundary: with the clock at exactly
  2022-03-14T00:00:00Z the time is not before that instant, yet the run builds the
  client configuration and goes on to serve. It also fails for the command line
  \<^verbatim>\<open>-h\<close>: no license is given, and the process ends with status 0, not fatally.
\<close>

theorem expiry_boundary_counterexample:
  "\<not> Before (now world_at_expiry) (Date 2022 3 14 0 0 0 0)
   \<and> hd (fst (run world_at_expiry)) = ClientConfig [] []
   \<and> snd (run world_at_expiry) = Inr ()
   \<and> run world_help = ([], Inl (OsExit 0))
   \<and> \<not> fatal (OsExit 0)"
  by (simp add: eval_defs)

subsection \<open>The scope of the Profile mirror\<close>

text \<open>
  C9. The Profile factory is made with \<^verbatim>\<open>ProfilesNamespace\<close>; setting or clearing
  \<^verbatim>\<open>ClusterRole\<close> changes neither that factory, nor the profile lister the Function
  Factory resolves profiles with, nor the profiles namespace of the deployment
  configuration, while setting it empties the namespace of the other two factories;
  and the Profile informer \<^verbatim>\<open>startInformers\<close> starts is the one of that factory,
  scoped to \<^verbatim>\<open>ProfilesNamespace\<close>.
\<close>

theorem profiles_scope:
  "namespace (profileInformerFactory (main_setup cfg kc fc)) = ProfilesNamespace cfg
   \<and> profileInformerFactory (main_setup (cfg\<lparr>ClusterRole := b\<rparr>) kc fc)
       = profileInformerFactory (main_setup cfg kc fc)
   \<and> factory_profiles (functionFactory (main_setup (cfg\<lparr>ClusterRole := b\<rparr>) kc fc))
       = Lister (Profiles (profileInformerFactory (main_setup cfg kc fc)))
   \<and> dc_ProfilesNamespace (factory_config (functionFactory (main_setup (cfg\<lparr>ClusterRole := b\<rparr>) kc fc)))
       = ProfilesNamespace cfg
   \<and> namespace (kubeInformerFactory (main_setup (cfg\<lparr>ClusterRole := True\<rparr>) kc fc)) = []
   \<and> namespace (faasInformerFactory (main_setup (cfg\<lparr>ClusterRole := True\<rparr>) kc fc)) = []
   \<and> (\<forall>x \<in> set (started (fst (startInformers w (main_setup cfg kc fc) op []))).
        kind_of x = ProfileKind \<longrightarrow>
        x = Profiles (profileInformerFactory (main_setup cfg kc fc))
        \<and> scope_of x = ProfilesNamespace cfg)"
proof -
  let ?su = "main_setup cfg kc fc"
  have ns: "namespace (profileInformerFactory ?su) = ProfilesNamespace cfg"
    by (simp add: main_setup_def Let_def)
  obtain tr r where s: "startInformers w ?su op [] = (tr, r)"
    by (cases "startInformers w ?su op []")
  from startInformers_started [OF s] ns
  have a: "\<forall>x \<in> set (started tr). kind_of x = ProfileKind \<longrightarrow>
        x = Profiles (profileInformerFactory ?su) \<and> scope_of x = ProfilesNamespace cfg"
    by auto
  have rest: "profileInformerFactory (main_setup (cfg\<lparr>ClusterRole := b\<rparr>) kc fc)
       = profileInformerFactory ?su"
    "factory_profiles (functionFactory (main_setup (cfg\<lparr>ClusterRole := b\<rparr>) kc fc))
       = Lister (Profiles (profileInformerFactory ?su))"
    "dc_ProfilesNamespace (factory_config (functionFactory (main_setup (cfg\<lparr>ClusterRole := b\<rparr>) kc fc)))
       = ProfilesNamespace cfg"
    "namespace (kubeInformerFactory (main_setup (cfg\<lparr>ClusterRole := True\<rparr>) kc fc)) = []"
    "namespace (faasInformerFactory (main_setup (cfg\<lparr>ClusterRole := True\<rparr>) kc fc)) = []"
    by (simp_all add: main_setup_def Let_def deployConfig_def namespaceScope_def)
  from ns a rest s show ?thesis by simp
qed

text \<open>
  With cluster-wide scope the started Profile informer still watches \<open>profiles\<close>.
\<close>

theorem profiles_scope_witness:
  "Profiles (profileInformerFactory setup1)
     \<in> set (started (fst (startInformers world0 setup1 True [])))
   \<and> kind_of (Profiles (profileInformerFactory setup1)) = ProfileKind
   \<and> ClusterRole config1 \<and> ProfilesNamespace config1 = ''profiles''
   \<and> scope_of (Profiles (profileInformerFactory setup1)) = ''profiles''
   \<and> namespace (kubeInformerFactory setup1) = []"
proof -
  have a: "Profiles (profileInformerFactory setup1)
     \<in> set (started (fst (startInformers world0 setup1 True [])))"
    by (simp add: startInformers_def run_and_wait_def proc_defs Let_def world0_def)
  have k: "kind_of (Profiles (profileInformerFactory setup1)) = ProfileKind" by simp
  have c: "ClusterRole config1" "ProfilesNamespace config1 = ''profiles''"
    "config1\<lparr>ClusterRole := True\<rparr> = config1"
    by (simp_all add: config1_def)
  note t = profiles_scope [of config1 "KubeClientset rest0" "FaasClientset rest0" True world0 True,
      unfolded c(3), folded setup1_def]
  from t a k c(2) have d: "scope_of (Profiles (profileInformerFactory setup1)) = ''profiles''"
    by (metis (no_types, lifting))
  from t have e: "namespace (kubeInformerFactory setup1) = []" by blast
  from a k c(1,2) d e show ?thesis by blast
qed

subsection \<open>The Prometheus host and port\<close>

text \<open>
  C10, as amended. When \<^verbatim>\<open>prometheus_port\<close> is set to a non-empty string, the port
  of the query client is the value \<^verbatim>\<open>strconv.Atoi\<close> returns, its error dropped. For a
  string that is not a valid integer that value is never the default 9090: it is 0
  when the number written by the leading digits does not exceed \<open>2 ^ 64 - 1\<close>
  (\<^verbatim>\<open>Atoi\<close> then reports a syntax error; this is always the case for a string shorter
  than 19 bytes). For any string whose leading digits write a number beyond
  \<open>2 ^ 64 - 1\<close>, whatever follows them, \<^verbatim>\<open>Atoi\<close> reports a range error and the port
  is the bound \<open>2 ^ 63 - 1\<close>, or \<open>- (2 ^ 63)\<close> after a minus sign; every range error
  gives one of these two bounds. The port is 9090 when the variable is unset or
  empty; the host is \<open>prometheus\<close> when \<^verbatim>\<open>prometheus_host\<close> is unset or empty and the
  variable's value otherwise.
\<close>

theorem prometheus_settings:
  "(env ''prometheus_port'' = Some v \<and> v \<noteq> [] \<longrightarrow>
       Port_q (prometheusQuery env) = fst (Atoi v)
     \<and> (\<not> valid_integer v \<longrightarrow>
          Port_q (prometheusQuery env) \<in> {0, 2 ^ 63 - 1, - (2 ^ 63)}
        \<and> Port_q (prometheusQuery env) \<noteq> 9090
        \<and> snd (Atoi v) \<noteq> None
        \<and> (snd (Atoi v) = Some ErrSyntax \<longrightarrow> Port_q (prometheusQuery env) = 0)
        \<and> (length v < 19 \<longrightarrow> Port_q (prometheusQuery env) = 0)
        \<and> (leading_value v \<le> 2 ^ 64 - 1 \<longrightarrow>
             Port_q (prometheusQuery env) = 0 \<and> snd (Atoi v) = Some ErrSyntax))
     \<and> (leading_value v > 2 ^ 64 - 1 \<longrightarrow>
          Port_q (prometheusQuery env) = (if hd v = CHR ''-'' then - (2 ^ 63) else 2 ^ 63 - 1)
        \<and> snd (Atoi v) = Some ErrRange)
     \<and> (snd (Atoi v) = Some ErrRange \<longrightarrow>
          Port_q (prometheusQuery env) \<in> {2 ^ 63 - 1, - (2 ^ 63)}))
   \<and> (env ''prometheus_port'' = None \<or> env ''prometheus_port'' = Some [] \<longrightarrow>
       Port_q (prometheusQuery env) = 9090)
   \<and> (env ''prometheus_host'' = None \<or> env ''prometheus_host'' = Some [] \<longrightarrow>
       Host_q (prometheusQuery env) = ''prometheus'')
   \<and> (env ''prometheus_host'' = Some h \<and> h \<noteq> [] \<longrightarrow> Host_q (prometheusQuery env) = h)"
proof -
  obtain m e where a: "Atoi v = (m, e)" by (cases "Atoi v")
  have inv: "m \<in> {0, 2 ^ 63 - 1, - (2 ^ 63)} \<and> m \<noteq> 9090 \<and> e \<noteq> None
             \<and> (e = Some ErrSyntax \<longrightarrow> m = 0)"
    if "\<not> valid_integer v"
  proof (cases e)
    case None
    with Atoi_result [OF a] that show ?thesis by simp
  next
    case (Some x)
    with Atoi_result [OF a] show ?thesis by (cases x) auto
  qed
  have short: "m = 0" if "v \<noteq> []" "length v < 19" "\<not> valid_integer v"
    using Atoi_short [OF that] a by simp
  have low: "m = 0 \<and> e = Some ErrSyntax"
    if "v \<noteq> []" "\<not> valid_integer v" "leading_value v \<le> 2 ^ 64 - 1"
    using Atoi_invalid_no_overflow [OF that(1,2)] that(3) a by (simp add: maxUint64_def)
  have high: "m = (if hd v = CHR ''-'' then - (2 ^ 63) else 2 ^ 63 - 1) \<and> e = Some ErrRange"
    if "leading_value v > 2 ^ 64 - 1"
    using Atoi_overflow [of v] that a by (simp add: maxUint64_def)
  have rng: "m \<in> {2 ^ 63 - 1, - (2 ^ 63)}" if "e = Some ErrRange"
    using Atoi_result [OF a] that by auto
  have port: "Port_q (prometheusQuery env) = m" if "env ''prometheus_port'' = Some v" "v \<noteq> []"
    using that a by (simp add: prometheusQuery_def Let_def)
  have dflt: "Port_q (prometheusQuery env) = 9090"
    if "env ''prometheus_port'' = None \<or> env ''prometheus_port'' = Some []"
    using that by (auto simp: prometheusQuery_def Let_def)
  have host: "Host_q (prometheusQuery env) = ''prometheus''"
    if "env ''prometheus_host'' = None \<or> env ''prometheus_host'' = Some []"
    using that by (auto simp: prometheusQuery_def Let_def)
  have host': "Host_q (prometheusQuery env) = h" if "env ''prometheus_host'' = Some h" "h \<noteq> []"
    using that by (simp add: prometheusQuery_def Let_def)
  from inv short low high rng port dflt host host' a show ?thesis
    by simp
qed

text \<open>
  A port that is a word gives 0, an empty port the default.
\<close>

theorem prometheus_settings_witness:
  "env_words ''prometheus_port'' = Some ''http'' \<and> ''http'' \<noteq> []
   \<and> \<not> valid_integer ''http'' \<and> length ''http'' < 19
   \<and> Port_q (prometheusQuery env_words) = 0
   \<and> env_words ''prometheus_host'' = Some ''prometheus.openfaas''
   \<and> Host_q (prometheusQuery env_words) = ''prometheus.openfaas''
   \<and> env_empty ''prometheus_port'' = Some [] \<and> env_empty ''prometheus_host'' = None
   \<and> Port_q (prometheusQuery env_empty) = 9090
   \<and> Host_q (prometheusQuery env_empty) = ''prometheus''
   \<and> env_overflow ''prometheus_port'' = Some ''99999999999999999999x''
   \<and> leading_value ''99999999999999999999x'' > 2 ^ 64 - 1
   \<and> Port_q (prometheusQuery env_overflow) = 2 ^ 63 - 1
   \<and> snd (Atoi ''99999999999999999999x'') = Some ErrRange"
proof -
  have h: "env_words ''prometheus_port'' = Some ''http''" "''http'' \<noteq> []"
    "\<not> valid_integer ''http''" "length ''http'' < 19"
    "env_words ''prometheus_host'' = Some ''prometheus.openfaas''"
    "''prometheus.openfaas'' \<noteq> []"
    "env_empty ''prometheus_port'' = Some []" "env_empty ''prometheus_host'' = None"
    by (simp_all add: env_words_def env_empty_def valid_integer_def is_digit_def byte_def)
  note t = prometheus_settings [of env_words "''http''" "''prometheus.openfaas''"]
  note u = prometheus_settings [of env_empty "[]" "[]"]
  from t h(1-4) have a: "Port_q (prometheusQuery env_words) = 0" by blast
  from t h(5,6) have b: "Host_q (prometheusQuery env_words) = ''prometheus.openfaas''" by blast
  from u h(7,8) have c: "Port_q (prometheusQuery env_empty) = 9090"
    "Host_q (prometheusQuery env_empty) = ''prometheus''" by blast+
  have o: "env_overflow ''prometheus_port'' = Some ''99999999999999999999x''"
    "''99999999999999999999x'' \<noteq> []"
    "leading_value ''99999999999999999999x'' > 2 ^ 64 - 1"
    "hd ''99999999999999999999x'' \<noteq> CHR ''-''"
    by (simp_all add: env_overflow_def leading_value_def unsigned_part_def is_digit_def byte_def)
  note x = prometheus_settings [of env_overflow "''99999999999999999999x''" "[]"]
  from x o have d: "Port_q (prometheusQuery env_overflow) = 2 ^ 63 - 1"
    "snd (Atoi ''99999999999999999999x'') = Some ErrRange"
    by (metis (no_types, lifting))+
  from h a b c o(1,3) d show ?thesis by blast
qed

text \<open>
  C10 as stated fails: twenty nines followed by a letter are no valid integer, but
  the digits overflow before the letter is read, \<^verbatim>\<open>Atoi\<close> returns the upper bound with
  a range error, and the port is that bound, not 0.
\<close>

theorem prometheus_port_counterexample:
  "env_overflow ''prometheus_port'' = Some ''99999999999999999999x''
   \<and> \<not> valid_integer ''99999999999999999999x''
   \<and> Atoi ''99999999999999999999x'' = (9223372036854775807, Some ErrRange)
   \<and> Port_q (prometheusQuery env_overflow) = 9223372036854775807
   \<and> Port_q (prometheusQuery env_overflow) \<noteq> 0"
  by (simp add: prometheusQuery_def env_overflow_def Atoi_def ParseInt_def ParseUint_def
        byte_def maxUint64_def lower_def valid_integer_def is_digit_def)

end
